theory Spec2Isabelle
  imports Main "HOL-Library.Char_ord" "HOL-Library.List_Lexorder" "HOL-Library.Multiset"
    "HOL-Library.AList"
begin

section \<open>Data model\<close>

text \<open>
  The members of the enum \<open>Type\<close> that the assembler uses. The enum itself is declared in
  \<^verbatim>\<open>typer.ts\<close>, which is not among the sources, so the number that stands for each member
  is a parameter \<open>ordinal\<close> of every function that computes with it.
\<close>

datatype Type = Alias | DataType | Length | StringLiteral | NumericLiteral | String | Number

text \<open>
  \<open>IGenerics\<close> objects are compared by identity (\<^verbatim>\<open>new Set\<close> in \<open>genericsOf\<close>), so a
  generic parameter is held as the address of its object. The module allocates one such
  object, \<open>lengthGeneric\<close>.
\<close>

record IGenerics =
  name :: string
  defaults :: string

type_synonym ref = nat

definition lengthGeneric :: ref where
  "lengthGeneric = 0"

definition generics_store :: "ref \<rightharpoonup> IGenerics" where
  "generics_store = [lengthGeneric \<mapsto> \<lparr>IGenerics.name = ''TLength'', defaults = ''string | 0''\<rparr>]"

text \<open>
  A \<open>TypeType\<close> value is an object tagged by its \<open>type\<close> field: an alias carries a name
  and generics, a data-type reference a name, a literal its value. \<open>MixedType\<close> is the
  whole union; a \<open>DeclarableType\<close> is one with no \<open>IDataType\<close>.
\<close>

datatype TypeType =
    IAlias string "ref list"
  | IDataType string
  | ILength
  | IStringLiteral string
  | INumericLiteral int
  | IString
  | INumber

fun type :: "TypeType \<Rightarrow> Type" where
  "type (IAlias n g) = Alias"
| "type (IDataType n) = DataType"
| "type ILength = Length"
| "type (IStringLiteral s) = StringLiteral"
| "type (INumericLiteral i) = NumericLiteral"
| "type IString = String"
| "type INumber = Number"

text \<open>
  The registry \<open>dataTypes\<close> of \<^verbatim>\<open>data-types.ts\<close> (not among the sources) is an object used
  as a dictionary from the name of a data type to its type list. An object has its own keys,
  and besides them the names it inherits from its prototype: \<^verbatim>\<open>name in dataTypes\<close> is true
  of both, and \<^verbatim>\<open>dataTypes[name]\<close> under a name that is only inherited is the inherited
  member, which is no array. The registry is a parameter of every function that reads it,
  and so is what it inherits; an object written \<^verbatim>\<open>{}\<close> inherits the members of
  \<^verbatim>\<open>Object.prototype\<close>. The code looks a name up only after it has found the name not to be
  empty (\<^verbatim>\<open>type.name && type.name in dataTypes\<close>), so an entry under the empty name is never
  read.
\<close>

record registry =
  own :: "string \<rightharpoonup> TypeType list"
  inherited :: "string list"

definition Object_prototype :: "string list" where
  "Object_prototype =
     [''constructor'', ''__defineGetter__'', ''__defineSetter__'', ''hasOwnProperty'',
      ''__lookupGetter__'', ''__lookupSetter__'', ''isPrototypeOf'', ''propertyIsEnumerable'',
      ''toString'', ''valueOf'', ''__proto__'', ''toLocaleString'']"

text \<open>\<^verbatim>\<open>name in dataTypes\<close>.\<close>

definition name_in :: "registry \<Rightarrow> string \<Rightarrow> bool" where
  "name_in dataTypes name' = (own dataTypes name' \<noteq> None \<or> name' \<in> set (inherited dataTypes))"

text \<open>
  A call either returns a value or throws; with a bound on the depth of calls it may also
  not come to an end within the bound, which is \<open>None\<close>.
\<close>

datatype error = TypeError

type_synonym 'a result = "(error + 'a) option"

fun result_bind :: "'a result \<Rightarrow> ('a \<Rightarrow> 'b result) \<Rightarrow> 'b result" where
  "result_bind None f = None"
| "result_bind (Some (Inl e)) f = Some (Inl e)"
| "result_bind (Some (Inr x)) f = f x"

fun result_map :: "('a \<Rightarrow> 'b) \<Rightarrow> 'a result \<Rightarrow> 'b result" where
  "result_map f None = None"
| "result_map f (Some (Inl e)) = Some (Inl e)"
| "result_map f (Some (Inr x)) = Some (Inr (f x))"

text \<open>
  \<^verbatim>\<open>Array.prototype.map\<close> over a callback that may throw or not return: the elements are
  taken in order, and the first that does not return a value decides.
\<close>

fun map_results :: "('a \<Rightarrow> 'b result) \<Rightarrow> 'a list \<Rightarrow> 'b list result" where
  "map_results f [] = Some (Inr [])"
| "map_results f (x # xs) =
     result_bind (f x) (\<lambda>y. result_bind (map_results f xs) (\<lambda>ys. Some (Inr (y # ys))))"

section \<open>Sorting\<close>

text \<open>
  \<open>sorter\<close>: literals of the same kind compare by value, everything else by the number of
  its kind.
\<close>

fun sorter :: "(Type \<Rightarrow> int) \<Rightarrow> TypeType \<Rightarrow> TypeType \<Rightarrow> int" where
  "sorter ordinal (IStringLiteral a) (IStringLiteral b) = (if a < b then - 1 else if a > b then 1 else 0)"
| "sorter ordinal (INumericLiteral a) (INumericLiteral b) = a - b"
| "sorter ordinal a b = ordinal (type a) - ordinal (type b)"

text \<open>
  \<^verbatim>\<open>Array.prototype.sort\<close> with a comparator: a stable sort, as the language requires, written
  as insertion from the right. An element goes in front of the first element it does not
  compare greater than.
\<close>

fun insert_sorted :: "('a \<Rightarrow> 'a \<Rightarrow> int) \<Rightarrow> 'a \<Rightarrow> 'a list \<Rightarrow> 'a list" where
  "insert_sorted cmp x [] = [x]"
| "insert_sorted cmp x (y # ys) = (if cmp x y \<le> 0 then x # y # ys else y # insert_sorted cmp x ys)"

fun array_sort :: "('a \<Rightarrow> 'a \<Rightarrow> int) \<Rightarrow> 'a list \<Rightarrow> 'a list" where
  "array_sort cmp [] = []"
| "array_sort cmp (x # xs) = insert_sorted cmp x (array_sort cmp xs)"

section \<open>The length generic\<close>

text \<open>
  \<^verbatim>\<open>Array.prototype.every\<close> over a callback that may throw or not return: the first element
  that answers false ends the loop, and so does the first on which the callback does not
  return a value.
\<close>

fun every_result :: "('a \<Rightarrow> bool result) \<Rightarrow> 'a list \<Rightarrow> bool result" where
  "every_result p [] = Some (Inr True)"
| "every_result p (x # xs) =
     (case p x of
        None \<Rightarrow> None
      | Some (Inl e) \<Rightarrow> Some (Inl e)
      | Some (Inr False) \<Rightarrow> Some (Inr False)
      | Some (Inr True) \<Rightarrow> every_result p xs)"

text \<open>
  \<open>lengthIn\<close> calls itself on \<^verbatim>\<open>dataTypes[type.name]\<close> for every data type it meets whose
  name is in the registry, with nothing that remembers the names already entered. Under a
  name that the registry only inherits, the argument of that call is no array and
  \<^verbatim>\<open>types.every\<close> is no function: the call throws a \<open>TypeError\<close>. The first argument bounds
  the depth of the calls: \<open>None\<close> is a recursion that does not come to an end at that depth,
  and at no depth when it is \<open>None\<close> for every bound.
\<close>

fun lengthIn :: "nat \<Rightarrow> registry \<Rightarrow> TypeType list \<Rightarrow> bool result" where
  "lengthIn 0 dataTypes types = None"
| "lengthIn (Suc fuel) dataTypes types =
     result_map Not (every_result (\<lambda>t.
       case t of
         ILength \<Rightarrow> Some (Inr False)
       | IDataType name' \<Rightarrow>
           (if name' \<noteq> [] \<and> name_in dataTypes name'
            then (case own dataTypes name' of
                    Some types' \<Rightarrow> result_map Not (lengthIn fuel dataTypes types')
                  | None \<Rightarrow> Some (Inl TypeError))
            else Some (Inr True))
       | _ \<Rightarrow> Some (Inr True)) types)"


text \<open>
  A registry has no cycle of references when its names can be ranked so that every
  registered name referred to by a data type's list ranks below that data type.
\<close>

definition ranked :: "(string \<Rightarrow> nat) \<Rightarrow> registry \<Rightarrow> bool" where
  "ranked rank dataTypes =
     (\<forall>n ts m. own dataTypes n = Some ts \<longrightarrow> IDataType m \<in> set ts \<longrightarrow>
        own dataTypes m \<noteq> None \<longrightarrow> rank m < rank n)"

section \<open>Filtering\<close>

definition filterMissingDataTypes :: "registry \<Rightarrow> TypeType list \<Rightarrow> TypeType list" where
  "filterMissingDataTypes dataTypes types =
     (let filtered = filter (\<lambda>t. type t \<noteq> DataType \<or>
                         (case t of IDataType name' \<Rightarrow> name' \<noteq> [] \<and> name_in dataTypes name' | _ \<Rightarrow> False)) types
      in if length filtered < length types \<and> list_all (\<lambda>t. type t \<noteq> String) filtered
         then filtered @ [IString]
         else filtered)"

definition onlyContainsString :: "TypeType list \<Rightarrow> bool" where
  "onlyContainsString types = list_all (\<lambda>t. type t = String) types"

definition onlyContainsNumber :: "TypeType list \<Rightarrow> bool" where
  "onlyContainsNumber types = list_all (\<lambda>t. type t = Number) types"

section \<open>The property tables\<close>

text \<open>
  Of an entry of \<^verbatim>\<open>mdn-data/css/properties.json\<close> the loop reads the syntax string and
  whether \<open>computed\<close> is an array. The JSON table, \<open>compatProperties\<close>, \<open>parse\<close> and
  \<open>typing\<close> are not among the sources and are parameters.
\<close>

record property_data =
  syntax' :: string
  computedIsArray :: bool

definition IGNORES :: "string list" where
  "IGNORES = [''--*'', ''all'']"

fun REGEX_VENDOR_PROPERTY :: "string \<Rightarrow> bool" where
  "REGEX_VENDOR_PROPERTY [] = False"
| "REGEX_VENDOR_PROPERTY (c # cs) = (c = CHR ''-'')"

text \<open>
  An object used as a dictionary is an association list: assigning to a key that is
  present replaces its value where it stands, a new key goes to the end.
\<close>

type_synonym table = "(string \<times> TypeType list) list"

record tables =
  standardLonghandProperties :: table
  standardShorthandProperties :: table
  vendorPrefixedLonghandProperties :: table
  vendorPrefixedShorthandProperties :: table
  svgProperties :: table

definition initial_tables :: tables where
  "initial_tables =
     \<lparr>standardLonghandProperties = [],
      standardShorthandProperties = [(''all'', [])],
      vendorPrefixedLonghandProperties = [],
      vendorPrefixedShorthandProperties = [],
      svgProperties = []\<rparr>"

text \<open>The body of the loop over \<open>propertyNames\<close>.\<close>

definition assign_name :: "bool \<Rightarrow> TypeType list \<Rightarrow> tables \<Rightarrow> string \<Rightarrow> tables" where
  "assign_name isShorthand types tbl name' =
     (if REGEX_VENDOR_PROPERTY name' then
        (if isShorthand
         then tbl\<lparr>vendorPrefixedShorthandProperties :=
                    AList.update name' types (vendorPrefixedShorthandProperties tbl)\<rparr>
         else tbl\<lparr>vendorPrefixedLonghandProperties :=
                    AList.update name' types (vendorPrefixedLonghandProperties tbl)\<rparr>)
      else
        (if isShorthand
         then tbl\<lparr>standardShorthandProperties :=
                    AList.update name' types (standardShorthandProperties tbl)\<rparr>
         else tbl\<lparr>standardLonghandProperties :=
                    AList.update name' types (standardLonghandProperties tbl)\<rparr>))"

text \<open>The body of the loop over the keys of \<open>properties\<close>.\<close>

definition process_property ::
  "(string \<Rightarrow> string list) \<Rightarrow> (string \<Rightarrow> 'ast) \<Rightarrow> ('ast \<Rightarrow> TypeType list) \<Rightarrow>
   tables \<Rightarrow> string \<times> property_data \<Rightarrow> tables" where
  "process_property compatProperties parse typing tbl entry =
     (case entry of (originalName, p) \<Rightarrow>
        if originalName \<in> set IGNORES then tbl
        else
          (let propertyNames = originalName # compatProperties originalName;
               types = typing (parse (syntax' p))
           in foldl (assign_name (computedIsArray p) types) tbl propertyNames))"

text \<open>The body of the loop over \<open>svgData\<close>: an entry with no syntax, or an empty one, is passed by.\<close>

definition process_svg ::
  "(string \<Rightarrow> 'ast) \<Rightarrow> ('ast \<Rightarrow> TypeType list) \<Rightarrow> tables \<Rightarrow> string \<times> string option \<Rightarrow> tables" where
  "process_svg parse typing tbl entry =
     (case entry of (name', s) \<Rightarrow>
        (case s of
           Some syntax'' \<Rightarrow>
             if syntax'' \<noteq> []
             then tbl\<lparr>svgProperties :=
                        AList.update name' (typing (parse syntax'')) (svgProperties tbl)\<rparr>
             else tbl
         | None \<Rightarrow> tbl))"

definition process_properties ::
  "(string \<Rightarrow> string list) \<Rightarrow> (string \<Rightarrow> 'ast) \<Rightarrow> ('ast \<Rightarrow> TypeType list) \<Rightarrow>
   (string \<times> property_data) list \<Rightarrow> tables" where
  "process_properties compatProperties parse typing properties =
     foldl (process_property compatProperties parse typing) initial_tables properties"

text \<open>The table that the loop writes a name of a property to, read back.\<close>

definition assigned :: "bool \<Rightarrow> tables \<Rightarrow> string \<Rightarrow> TypeType list option" where
  "assigned isShorthand tbl name' =
     (if REGEX_VENDOR_PROPERTY name' then
        (if isShorthand then map_of (vendorPrefixedShorthandProperties tbl) name'
         else map_of (vendorPrefixedLonghandProperties tbl) name')
      else
        (if isShorthand then map_of (standardShorthandProperties tbl) name'
         else map_of (standardLonghandProperties tbl) name'))"

section \<open>Declarations\<close>

record IDeclaration =
  name :: string
  export :: bool
  types :: "TypeType list"
  generics :: "ref list"

record IPropertyAlias =
  name :: string
  generics :: "ref list"
  "alias" :: TypeType

datatype PropertyType =
    AliasProperty IPropertyAlias
  | TypeProperty string TypeType

text \<open>
  What the assembler takes from the modules that are not among the sources: the numbers of
  the enum, the casing functions, the registry, and \<open>globals\<close> (the resolved syntax of
  \<open>all\<close>).
\<close>

record imported =
  ordinal :: "Type \<Rightarrow> int"
  toPascalCase :: "string \<Rightarrow> string"
  toCamelCase :: "string \<Rightarrow> string"
  toVendorPrefixCase :: "string \<Rightarrow> string"
  dataTypes :: registry
  globals :: "TypeType list"

text \<open>
  \<open>declarable\<close> sorts, then rewrites every data-type reference into an alias. It returns
  when \<open>lengthIn\<close> does on every registered data type it rewrites, and throws on a name
  that the registry only inherits. The code sorts the array it is given in place; the
  assembly hands it arrays that are not read again, so only the returned list is kept here.
\<close>

definition declarable :: "imported \<Rightarrow> nat \<Rightarrow> TypeType list \<Rightarrow> TypeType list result" where
  "declarable im fuel types' =
     map_results (\<lambda>t.
       case t of
         IDataType name' \<Rightarrow>
           result_bind
             (if name' \<noteq> [] \<and> name_in (dataTypes im) name'
              then (case own (dataTypes im) name' of
                      Some ts \<Rightarrow> lengthIn fuel (dataTypes im) ts
                    | None \<Rightarrow> Some (Inl TypeError))
              else Some (Inr False))
             (\<lambda>b. Some (Inr (IAlias (toPascalCase im name') (if b then [lengthGeneric] else []))))
       | _ \<Rightarrow> Some (Inr t)) (array_sort (sorter (ordinal im)) types')"

definition aliasOf :: "imported \<Rightarrow> nat \<Rightarrow> IDeclaration \<Rightarrow> TypeType result" where
  "aliasOf im fuel d =
     result_bind (lengthIn fuel (dataTypes im) (types d))
       (\<lambda>b. Some (Inr (IAlias (IDeclaration.name d) (if b then [lengthGeneric] else []))))"

text \<open>
  The three global declarations. The code computes each of them once, before the loops over
  the tables; they depend on nothing that the loops change, and are computed here where a
  property uses them.
\<close>

definition globalsDeclaration :: "imported \<Rightarrow> nat \<Rightarrow> IDeclaration result" where
  "globalsDeclaration im fuel =
     result_bind (declarable im fuel (globals im))
       (\<lambda>ts. Some (Inr \<lparr>IDeclaration.name = ''Globals'', export = False, types = ts,
                         generics = []\<rparr>))"

definition globalsAndStringDeclaration :: "imported \<Rightarrow> nat \<Rightarrow> IDeclaration result" where
  "globalsAndStringDeclaration im fuel =
     result_bind (globalsDeclaration im fuel) (\<lambda>g.
     result_bind (aliasOf im fuel g) (\<lambda>a.
     result_bind (declarable im fuel [a, IString]) (\<lambda>ts.
     Some (Inr \<lparr>IDeclaration.name = ''GlobalsString'', export = False, types = ts,
                 generics = []\<rparr>))))"

definition globalsAndNumberDeclaration :: "imported \<Rightarrow> nat \<Rightarrow> IDeclaration result" where
  "globalsAndNumberDeclaration im fuel =
     result_bind (globalsDeclaration im fuel) (\<lambda>g.
     result_bind (aliasOf im fuel g) (\<lambda>a.
     result_bind (declarable im fuel [a, INumber]) (\<lambda>ts.
     Some (Inr \<lparr>IDeclaration.name = ''GlobalsNumber'', export = False, types = ts,
                 generics = []\<rparr>))))"

definition PROPERTY :: string where
  "PROPERTY = ''Property''"

definition declarationExists :: "IDeclaration list \<Rightarrow> string \<Rightarrow> bool" where
  "declarationExists declarations name' =
     (\<not> list_all (\<lambda>declaration. IDeclaration.name declaration \<noteq> name') declarations)"

section \<open>Assembling the properties\<close>

text \<open>
  The loop over the sorted names of one table writes to the shared list \<open>declarations\<close>
  and to the two definition lists chosen for the table. The loops over the at-rule
  descriptors and over the data types come after it and are not part of this development.
\<close>

record assembly =
  declarations :: "IDeclaration list"
  definitions :: "IPropertyAlias list"
  hyphenDefinitions :: "IPropertyAlias list"

definition assemble_property ::
  "imported \<Rightarrow> nat \<Rightarrow> bool \<Rightarrow> table \<Rightarrow> assembly \<Rightarrow> string \<Rightarrow> assembly result" where
  "assemble_property im fuel isVendorProperties properties st name' =
     (let types' = filterMissingDataTypes (dataTypes im) (the (map_of properties name')) in
      result_bind (lengthIn fuel (dataTypes im) types') (\<lambda>b.
      let generics' = (if b then [lengthGeneric] else []) in
      result_bind
        (if length types' = 0 then
           result_bind (globalsDeclaration im fuel) (\<lambda>g. Some (Inr (g, declarations st)))
         else if onlyContainsString types' then
           result_bind (globalsAndStringDeclaration im fuel) (\<lambda>g. Some (Inr (g, declarations st)))
         else if onlyContainsNumber types' then
           result_bind (globalsAndNumberDeclaration im fuel) (\<lambda>g. Some (Inr (g, declarations st)))
         else
           (let declarationName = toPascalCase im name' @ PROPERTY in
            result_bind (globalsDeclaration im fuel) (\<lambda>g.
            result_bind (aliasOf im fuel g) (\<lambda>a.
            result_bind (declarable im fuel types') (\<lambda>ts.
            let declaration =
              \<lparr>IDeclaration.name = declarationName, export = False, types = a # ts,
               generics = generics'\<rparr>
            in Some (Inr (declaration,
                 if \<not> declarationExists (declarations st) declarationName
                 then declarations st @ [declaration]
                 else declarations st)))))))
        (\<lambda>(declaration, declarations').
      result_bind (aliasOf im fuel declaration) (\<lambda>a.
      Some (Inr \<lparr>declarations = declarations',
              definitions = definitions st @
                [\<lparr>IPropertyAlias.name =
                    (if isVendorProperties then toVendorPrefixCase im name' else toCamelCase im name'),
                  generics = generics', alias = a\<rparr>],
              hyphenDefinitions = hyphenDefinitions st @
                [\<lparr>IPropertyAlias.name = name', generics = generics', alias = a\<rparr>]\<rparr>)))))"

text \<open>The loop over \<open>Object.keys(properties).sort()\<close>.\<close>

fun assemble_names ::
  "imported \<Rightarrow> nat \<Rightarrow> bool \<Rightarrow> table \<Rightarrow> assembly \<Rightarrow> string list \<Rightarrow> assembly result" where
  "assemble_names im fuel isVendorProperties properties st [] = Some (Inr st)"
| "assemble_names im fuel isVendorProperties properties st (name' # names) =
     result_bind (assemble_property im fuel isVendorProperties properties st name')
       (\<lambda>st'. assemble_names im fuel isVendorProperties properties st' names)"

definition assemble_table ::
  "imported \<Rightarrow> nat \<Rightarrow> bool \<Rightarrow> table \<Rightarrow> IDeclaration list \<Rightarrow> assembly result" where
  "assemble_table im fuel isVendorProperties properties declarations0 =
     assemble_names im fuel isVendorProperties properties
       \<lparr>declarations = declarations0, definitions = [], hyphenDefinitions = []\<rparr>
       (sort (map fst properties))"

text \<open>
  The loop over the five tables: each table has its own pair of definition lists, and all
  of them share \<open>declarations\<close>.
\<close>

record definitionLists =
  standardLonghandPropertiesDefinition :: "IPropertyAlias list"
  standardShorthandPropertiesDefinition :: "IPropertyAlias list"
  standardLonghandPropertiesHyphenDefinition :: "IPropertyAlias list"
  standardShorthandPropertiesHyphenDefinition :: "IPropertyAlias list"
  vendorLonghandPropertiesDefinition :: "IPropertyAlias list"
  vendorShorthandPropertiesDefinition :: "IPropertyAlias list"
  vendorLonghandPropertiesHyphenDefinition :: "IPropertyAlias list"
  vendorShorthandPropertiesHyphenDefinition :: "IPropertyAlias list"
  svgPropertiesDefinition :: "IPropertyAlias list"
  svgPropertiesHyphenDefinition :: "IPropertyAlias list"

definition assemble_tables ::
  "imported \<Rightarrow> nat \<Rightarrow> tables \<Rightarrow> IDeclaration list \<Rightarrow> (IDeclaration list \<times> definitionLists) result" where
  "assemble_tables im fuel tbl declarations0 =
     result_bind (assemble_table im fuel False (standardLonghandProperties tbl) declarations0) (\<lambda>a1.
     result_bind (assemble_table im fuel False (standardShorthandProperties tbl) (declarations a1)) (\<lambda>a2.
     result_bind (assemble_table im fuel True (vendorPrefixedLonghandProperties tbl) (declarations a2)) (\<lambda>a3.
     result_bind (assemble_table im fuel True (vendorPrefixedShorthandProperties tbl) (declarations a3)) (\<lambda>a4.
     result_bind (assemble_table im fuel False (svgProperties tbl) (declarations a4)) (\<lambda>a5.
     Some (Inr (declarations a5,
         \<lparr>standardLonghandPropertiesDefinition = definitions a1,
          standardShorthandPropertiesDefinition = definitions a2,
          standardLonghandPropertiesHyphenDefinition = hyphenDefinitions a1,
          standardShorthandPropertiesHyphenDefinition = hyphenDefinitions a2,
          vendorLonghandPropertiesDefinition = definitions a3,
          vendorShorthandPropertiesDefinition = definitions a4,
          vendorLonghandPropertiesHyphenDefinition = hyphenDefinitions a3,
          vendorShorthandPropertiesHyphenDefinition = hyphenDefinitions a4,
          svgPropertiesDefinition = definitions a5,
          svgPropertiesHyphenDefinition = hyphenDefinitions a5\<rparr>)))))))"

section \<open>Generics of an interface\<close>

text \<open>
  \<^verbatim>\<open>Array.from(new Set(xs))\<close>: the elements in the order they were first added, each once.
\<close>

fun Set_add_all :: "'a list \<Rightarrow> 'a list \<Rightarrow> 'a list" where
  "Set_add_all s [] = s"
| "Set_add_all s (x # xs) = Set_add_all (if x \<in> set s then s else s @ [x]) xs"

definition genericsOf :: "IPropertyAlias list \<Rightarrow> ref list" where
  "genericsOf definitions' = Set_add_all [] (concat (map IPropertyAlias.generics definitions'))"

section \<open>Interfaces\<close>

datatype Interface =
  Interface (name: string) (generics: "ref list") (extends: "Interface list") (fallback: bool)
    (properties: "PropertyType list")

definition PROPERTIES :: string where
  "PROPERTIES = ''Properties''"

definition LONGHAND :: string where
  "LONGHAND = ''Longhand''"

definition SHORTHAND :: string where
  "SHORTHAND = ''Shorthand''"

definition STANDARD :: string where
  "STANDARD = ''Standard''"

definition VENDOR :: string where
  "VENDOR = ''Vendor''"

definition SVG :: string where
  "SVG = ''Svg''"

definition HYPHEN :: string where
  "HYPHEN = ''Hyphen''"

definition FALLBACK :: string where
  "FALLBACK = ''Fallback''"

definition INTERFACE_STANDARD_LONGHAND_PROPERTIES :: string where
  "INTERFACE_STANDARD_LONGHAND_PROPERTIES = STANDARD @ LONGHAND @ PROPERTIES"

definition INTERFACE_STANDARD_SHORTHAND_PROPERTIES :: string where
  "INTERFACE_STANDARD_SHORTHAND_PROPERTIES = STANDARD @ SHORTHAND @ PROPERTIES"

definition INTERFACE_STANDARD_PROPERTIES :: string where
  "INTERFACE_STANDARD_PROPERTIES = STANDARD @ PROPERTIES"

definition INTERFACE_VENDOR_LONGHAND_PROPERTIES :: string where
  "INTERFACE_VENDOR_LONGHAND_PROPERTIES = VENDOR @ LONGHAND @ PROPERTIES"

definition INTERFACE_VENDOR_SHORTHAND_PROPERTIES :: string where
  "INTERFACE_VENDOR_SHORTHAND_PROPERTIES = VENDOR @ SHORTHAND @ PROPERTIES"

definition INTERFACE_VENDOR_PROPERTIES :: string where
  "INTERFACE_VENDOR_PROPERTIES = VENDOR @ PROPERTIES"

definition INTERFACE_SVG_PROPERTIES :: string where
  "INTERFACE_SVG_PROPERTIES = SVG @ PROPERTIES"

definition INTERFACE_ALL_PROPERTIES :: string where
  "INTERFACE_ALL_PROPERTIES = PROPERTIES"

definition INTERFACE_STANDARD_LONGHAND_PROPERTIES_HYPHEN :: string where
  "INTERFACE_STANDARD_LONGHAND_PROPERTIES_HYPHEN = INTERFACE_STANDARD_LONGHAND_PROPERTIES @ HYPHEN"

definition INTERFACE_STANDARD_SHORTHAND_PROPERTIES_HYPHEN :: string where
  "INTERFACE_STANDARD_SHORTHAND_PROPERTIES_HYPHEN = INTERFACE_STANDARD_SHORTHAND_PROPERTIES @ HYPHEN"

definition INTERFACE_STANDARD_PROPERTIES_HYPHEN :: string where
  "INTERFACE_STANDARD_PROPERTIES_HYPHEN = INTERFACE_STANDARD_PROPERTIES @ HYPHEN"

definition INTERFACE_VENDOR_LONGHAND_PROPERTIES_HYPHEN :: string where
  "INTERFACE_VENDOR_LONGHAND_PROPERTIES_HYPHEN = INTERFACE_VENDOR_LONGHAND_PROPERTIES @ HYPHEN"

definition INTERFACE_VENDOR_SHORTHAND_PROPERTIES_HYPHEN :: string where
  "INTERFACE_VENDOR_SHORTHAND_PROPERTIES_HYPHEN = INTERFACE_VENDOR_SHORTHAND_PROPERTIES @ HYPHEN"

definition INTERFACE_VENDOR_PROPERTIES_HYPHEN :: string where
  "INTERFACE_VENDOR_PROPERTIES_HYPHEN = INTERFACE_VENDOR_PROPERTIES @ HYPHEN"

definition INTERFACE_SVG_PROPERTIES_HYPHEN :: string where
  "INTERFACE_SVG_PROPERTIES_HYPHEN = INTERFACE_SVG_PROPERTIES @ HYPHEN"

definition INTERFACE_ALL_PROPERTIES_HYPHEN :: string where
  "INTERFACE_ALL_PROPERTIES_HYPHEN = INTERFACE_ALL_PROPERTIES @ HYPHEN"

definition INTERFACE_STANDARD_LONGHAND_PROPERTIES_FALLBACK :: string where
  "INTERFACE_STANDARD_LONGHAND_PROPERTIES_FALLBACK = INTERFACE_STANDARD_LONGHAND_PROPERTIES @ FALLBACK"

definition INTERFACE_STANDARD_SHORTHAND_PROPERTIES_FALLBACK :: string where
  "INTERFACE_STANDARD_SHORTHAND_PROPERTIES_FALLBACK = INTERFACE_STANDARD_SHORTHAND_PROPERTIES @ FALLBACK"

definition INTERFACE_STANDARD_PROPERTIES_FALLBACK :: string where
  "INTERFACE_STANDARD_PROPERTIES_FALLBACK = INTERFACE_STANDARD_PROPERTIES @ FALLBACK"

definition INTERFACE_VENDOR_LONGHAND_PROPERTIES_FALLBACK :: string where
  "INTERFACE_VENDOR_LONGHAND_PROPERTIES_FALLBACK = INTERFACE_VENDOR_LONGHAND_PROPERTIES @ FALLBACK"

definition INTERFACE_VENDOR_SHORTHAND_PROPERTIES_FALLBACK :: string where
  "INTERFACE_VENDOR_SHORTHAND_PROPERTIES_FALLBACK = INTERFACE_VENDOR_SHORTHAND_PROPERTIES @ FALLBACK"

definition INTERFACE_VENDOR_PROPERTIES_FALLBACK :: string where
  "INTERFACE_VENDOR_PROPERTIES_FALLBACK = INTERFACE_VENDOR_PROPERTIES @ FALLBACK"

definition INTERFACE_SVG_PROPERTIES_FALLBACK :: string where
  "INTERFACE_SVG_PROPERTIES_FALLBACK = INTERFACE_SVG_PROPERTIES @ FALLBACK"

definition INTERFACE_ALL_PROPERTIES_FALLBACK :: string where
  "INTERFACE_ALL_PROPERTIES_FALLBACK = INTERFACE_ALL_PROPERTIES @ FALLBACK"

definition INTERFACE_STANDARD_LONGHAND_PROPERTIES_HYPHEN_FALLBACK :: string where
  "INTERFACE_STANDARD_LONGHAND_PROPERTIES_HYPHEN_FALLBACK = INTERFACE_STANDARD_LONGHAND_PROPERTIES @ HYPHEN @ FALLBACK"

definition INTERFACE_STANDARD_SHORTHAND_PROPERTIES_HYPHEN_FALLBACK :: string where
  "INTERFACE_STANDARD_SHORTHAND_PROPERTIES_HYPHEN_FALLBACK = INTERFACE_STANDARD_SHORTHAND_PROPERTIES @ HYPHEN @ FALLBACK"

definition INTERFACE_STANDARD_PROPERTIES_HYPHEN_FALLBACK :: string where
  "INTERFACE_STANDARD_PROPERTIES_HYPHEN_FALLBACK = INTERFACE_STANDARD_PROPERTIES @ HYPHEN @ FALLBACK"

definition INTERFACE_VENDOR_LONGHAND_PROPERTIES_HYPHEN_FALLBACK :: string where
  "INTERFACE_VENDOR_LONGHAND_PROPERTIES_HYPHEN_FALLBACK = INTERFACE_VENDOR_LONGHAND_PROPERTIES @ HYPHEN @ FALLBACK"

definition INTERFACE_VENDOR_SHORTHAND_PROPERTIES_HYPHEN_FALLBACK :: string where
  "INTERFACE_VENDOR_SHORTHAND_PROPERTIES_HYPHEN_FALLBACK = INTERFACE_VENDOR_SHORTHAND_PROPERTIES @ HYPHEN @ FALLBACK"

definition INTERFACE_VENDOR_PROPERTIES_HYPHEN_FALLBACK :: string where
  "INTERFACE_VENDOR_PROPERTIES_HYPHEN_FALLBACK = INTERFACE_VENDOR_PROPERTIES @ HYPHEN @ FALLBACK"

definition INTERFACE_SVG_PROPERTIES_HYPHEN_FALLBACK :: string where
  "INTERFACE_SVG_PROPERTIES_HYPHEN_FALLBACK = INTERFACE_SVG_PROPERTIES @ HYPHEN @ FALLBACK"

definition INTERFACE_ALL_PROPERTIES_HYPHEN_FALLBACK :: string where
  "INTERFACE_ALL_PROPERTIES_HYPHEN_FALLBACK = INTERFACE_ALL_PROPERTIES @ HYPHEN @ FALLBACK"

text \<open>The generics of the interfaces, from the definition lists \<open>d\<close> that the loops filled.\<close>

definition standardLonghandPropertiesGenerics :: "definitionLists \<Rightarrow> ref list" where
  "standardLonghandPropertiesGenerics d = genericsOf (standardLonghandPropertiesDefinition d)"

definition standardShorthandPropertiesGenerics :: "definitionLists \<Rightarrow> ref list" where
  "standardShorthandPropertiesGenerics d = genericsOf (standardShorthandPropertiesDefinition d)"

definition standardPropertiesGenerics :: "definitionLists \<Rightarrow> ref list" where
  "standardPropertiesGenerics d =
     genericsOf (standardLonghandPropertiesDefinition d @ standardShorthandPropertiesDefinition d)"

definition vendorLonghandPropertiesGenerics :: "definitionLists \<Rightarrow> ref list" where
  "vendorLonghandPropertiesGenerics d = genericsOf (vendorLonghandPropertiesDefinition d)"

definition vendorShorthandPropertiesGenerics :: "definitionLists \<Rightarrow> ref list" where
  "vendorShorthandPropertiesGenerics d = genericsOf (vendorShorthandPropertiesDefinition d)"

definition vendorPropertiesGenerics :: "definitionLists \<Rightarrow> ref list" where
  "vendorPropertiesGenerics d =
     genericsOf (vendorLonghandPropertiesDefinition d @ vendorShorthandPropertiesDefinition d)"

definition svgPropertiesGenerics :: "definitionLists \<Rightarrow> ref list" where
  "svgPropertiesGenerics d = genericsOf (svgPropertiesDefinition d)"

definition allPropertiesGenerics :: "definitionLists \<Rightarrow> ref list" where
  "allPropertiesGenerics d =
     genericsOf (standardLonghandPropertiesDefinition d @ standardShorthandPropertiesDefinition d @
       vendorLonghandPropertiesDefinition d @ vendorShorthandPropertiesDefinition d @
       svgPropertiesDefinition d)"

definition standardLonghandPropertiesInterface :: "definitionLists \<Rightarrow> Interface" where
  "standardLonghandPropertiesInterface d =
     Interface INTERFACE_STANDARD_LONGHAND_PROPERTIES (standardLonghandPropertiesGenerics d) [] False
       (map AliasProperty (standardLonghandPropertiesDefinition d))"

definition standardShorthandPropertiesInterface :: "definitionLists \<Rightarrow> Interface" where
  "standardShorthandPropertiesInterface d =
     Interface INTERFACE_STANDARD_SHORTHAND_PROPERTIES (standardShorthandPropertiesGenerics d) [] False
       (map AliasProperty (standardShorthandPropertiesDefinition d))"

definition standardPropertiesInterface :: "definitionLists \<Rightarrow> Interface" where
  "standardPropertiesInterface d =
     Interface INTERFACE_STANDARD_PROPERTIES (standardPropertiesGenerics d)
       [standardLonghandPropertiesInterface d, standardShorthandPropertiesInterface d] False []"

definition vendorLonghandPropertiesInterface :: "definitionLists \<Rightarrow> Interface" where
  "vendorLonghandPropertiesInterface d =
     Interface INTERFACE_VENDOR_LONGHAND_PROPERTIES (vendorLonghandPropertiesGenerics d) [] False
       (map AliasProperty (vendorLonghandPropertiesDefinition d))"

definition vendorShorthandPropertiesInterface :: "definitionLists \<Rightarrow> Interface" where
  "vendorShorthandPropertiesInterface d =
     Interface INTERFACE_VENDOR_SHORTHAND_PROPERTIES (vendorShorthandPropertiesGenerics d) [] False
       (map AliasProperty (vendorShorthandPropertiesDefinition d))"

definition vendorPropertiesInterface :: "definitionLists \<Rightarrow> Interface" where
  "vendorPropertiesInterface d =
     Interface INTERFACE_VENDOR_PROPERTIES (vendorPropertiesGenerics d)
       [vendorLonghandPropertiesInterface d, vendorShorthandPropertiesInterface d] False []"

definition svgPropertiesInterface :: "definitionLists \<Rightarrow> Interface" where
  "svgPropertiesInterface d =
     Interface INTERFACE_SVG_PROPERTIES (svgPropertiesGenerics d) [] False
       (map AliasProperty (svgPropertiesDefinition d))"

definition allPropertiesInterface :: "definitionLists \<Rightarrow> Interface" where
  "allPropertiesInterface d =
     Interface INTERFACE_ALL_PROPERTIES (allPropertiesGenerics d)
       [standardPropertiesInterface d, vendorPropertiesInterface d, svgPropertiesInterface d] False []"

definition standardLonghandPropertiesHyphenInterface :: "definitionLists \<Rightarrow> Interface" where
  "standardLonghandPropertiesHyphenInterface d =
     Interface INTERFACE_STANDARD_LONGHAND_PROPERTIES_HYPHEN (standardLonghandPropertiesGenerics d) [] False
       (map AliasProperty (standardLonghandPropertiesHyphenDefinition d))"

definition standardShorthandPropertiesHyphenInterface :: "definitionLists \<Rightarrow> Interface" where
  "standardShorthandPropertiesHyphenInterface d =
     Interface INTERFACE_STANDARD_SHORTHAND_PROPERTIES_HYPHEN (standardShorthandPropertiesGenerics d) [] False
       (map AliasProperty (standardShorthandPropertiesHyphenDefinition d))"

definition standardPropertiesHyphenInterface :: "definitionLists \<Rightarrow> Interface" where
  "standardPropertiesHyphenInterface d =
     Interface INTERFACE_STANDARD_PROPERTIES_HYPHEN (standardPropertiesGenerics d)
       [standardLonghandPropertiesHyphenInterface d, standardShorthandPropertiesHyphenInterface d] False []"

definition vendorLonghandPropertiesHyphenInterface :: "definitionLists \<Rightarrow> Interface" where
  "vendorLonghandPropertiesHyphenInterface d =
     Interface INTERFACE_VENDOR_LONGHAND_PROPERTIES_HYPHEN (vendorLonghandPropertiesGenerics d) [] False
       (map AliasProperty (vendorLonghandPropertiesHyphenDefinition d))"

definition vendorShorthandPropertiesHyphenInterface :: "definitionLists \<Rightarrow> Interface" where
  "vendorShorthandPropertiesHyphenInterface d =
     Interface INTERFACE_VENDOR_SHORTHAND_PROPERTIES_HYPHEN (vendorShorthandPropertiesGenerics d) [] False
       (map AliasProperty (vendorShorthandPropertiesHyphenDefinition d))"

definition vendorPropertiesHyphenInterface :: "definitionLists \<Rightarrow> Interface" where
  "vendorPropertiesHyphenInterface d =
     Interface INTERFACE_VENDOR_PROPERTIES_HYPHEN (vendorPropertiesGenerics d)
       [vendorLonghandPropertiesHyphenInterface d, vendorShorthandPropertiesHyphenInterface d] False []"

definition svgPropertiesHyphenInterface :: "definitionLists \<Rightarrow> Interface" where
  "svgPropertiesHyphenInterface d =
     Interface INTERFACE_SVG_PROPERTIES_HYPHEN (svgPropertiesGenerics d) [] False
       (map AliasProperty (svgPropertiesHyphenDefinition d))"

definition allPropertiesHyphenInterface :: "definitionLists \<Rightarrow> Interface" where
  "allPropertiesHyphenInterface d =
     Interface INTERFACE_ALL_PROPERTIES_HYPHEN (allPropertiesGenerics d)
       [standardPropertiesHyphenInterface d, vendorPropertiesHyphenInterface d, svgPropertiesHyphenInterface d] False []"

text \<open>
  A fallback interface spreads its base interface and then sets \<open>name\<close> and \<open>fallback\<close>,
  and \<open>extends\<close> where the base extends other interfaces.
\<close>

definition standardLongformPropertiesFallbackInterface :: "definitionLists \<Rightarrow> Interface" where
  "standardLongformPropertiesFallbackInterface d =
     (let base = standardLonghandPropertiesInterface d
      in Interface INTERFACE_STANDARD_LONGHAND_PROPERTIES_FALLBACK (Interface.generics base) (extends base) True (properties base))"

definition standardShorthandPropertiesFallbackInterface :: "definitionLists \<Rightarrow> Interface" where
  "standardShorthandPropertiesFallbackInterface d =
     (let base = standardShorthandPropertiesInterface d
      in Interface INTERFACE_STANDARD_SHORTHAND_PROPERTIES_FALLBACK (Interface.generics base) (extends base) True (properties base))"

definition standardPropertiesFallbackInterface :: "definitionLists \<Rightarrow> Interface" where
  "standardPropertiesFallbackInterface d =
     (let base = standardPropertiesInterface d
      in Interface INTERFACE_STANDARD_PROPERTIES_FALLBACK (Interface.generics base)
         [standardLongformPropertiesFallbackInterface d,
          standardShorthandPropertiesFallbackInterface d]
         True (properties base))"

definition vendorLonghandPropertiesFallbackInterface :: "definitionLists \<Rightarrow> Interface" where
  "vendorLonghandPropertiesFallbackInterface d =
     (let base = vendorLonghandPropertiesInterface d
      in Interface INTERFACE_VENDOR_LONGHAND_PROPERTIES_FALLBACK (Interface.generics base) (extends base) True (properties base))"

definition vendorShorthandPropertiesFallbackInterface :: "definitionLists \<Rightarrow> Interface" where
  "vendorShorthandPropertiesFallbackInterface d =
     (let base = vendorShorthandPropertiesInterface d
      in Interface INTERFACE_VENDOR_SHORTHAND_PROPERTIES_FALLBACK (Interface.generics base) (extends base) True (properties base))"

definition vendorPropertiesFallbackInterface :: "definitionLists \<Rightarrow> Interface" where
  "vendorPropertiesFallbackInterface d =
     (let base = vendorPropertiesInterface d
      in Interface INTERFACE_VENDOR_PROPERTIES_FALLBACK (Interface.generics base)
         [vendorLonghandPropertiesFallbackInterface d,
          vendorShorthandPropertiesFallbackInterface d]
         True (properties base))"

definition svgPropertiesFallbackInterface :: "definitionLists \<Rightarrow> Interface" where
  "svgPropertiesFallbackInterface d =
     (let base = svgPropertiesInterface d
      in Interface INTERFACE_SVG_PROPERTIES_FALLBACK (Interface.generics base) (extends base) True (properties base))"

definition allPropertiesFallbackInterface :: "definitionLists \<Rightarrow> Interface" where
  "allPropertiesFallbackInterface d =
     (let base = allPropertiesInterface d
      in Interface INTERFACE_ALL_PROPERTIES_FALLBACK (Interface.generics base)
         [standardPropertiesFallbackInterface d,
          vendorPropertiesFallbackInterface d,
          svgPropertiesFallbackInterface d]
         True (properties base))"

definition standardLongformPropertiesHyphenFallbackInterface :: "definitionLists \<Rightarrow> Interface" where
  "standardLongformPropertiesHyphenFallbackInterface d =
     (let base = standardLonghandPropertiesHyphenInterface d
      in Interface INTERFACE_STANDARD_LONGHAND_PROPERTIES_HYPHEN_FALLBACK (Interface.generics base) (extends base) True (properties base))"

definition standardShorthandPropertiesHyphenFallbackInterface :: "definitionLists \<Rightarrow> Interface" where
  "standardShorthandPropertiesHyphenFallbackInterface d =
     (let base = standardShorthandPropertiesHyphenInterface d
      in Interface INTERFACE_STANDARD_SHORTHAND_PROPERTIES_HYPHEN_FALLBACK (Interface.generics base) (extends base) True (properties base))"

definition standardPropertiesHyphenFallbackInterface :: "definitionLists \<Rightarrow> Interface" where
  "standardPropertiesHyphenFallbackInterface d =
     (let base = standardPropertiesHyphenInterface d
      in Interface INTERFACE_STANDARD_PROPERTIES_HYPHEN_FALLBACK (Interface.generics base)
         [standardLongformPropertiesHyphenFallbackInterface d,
          standardShorthandPropertiesHyphenFallbackInterface d]
         True (properties base))"

definition vendorLonghandPropertiesHyphenFallbackInterface :: "definitionLists \<Rightarrow> Interface" where
  "vendorLonghandPropertiesHyphenFallbackInterface d =
     (let base = vendorLonghandPropertiesHyphenInterface d
      in Interface INTERFACE_VENDOR_LONGHAND_PROPERTIES_HYPHEN_FALLBACK (Interface.generics base) (extends base) True (properties base))"

definition vendorShorthandPropertiesHyphenFallbackInterface :: "definitionLists \<Rightarrow> Interface" where
  "vendorShorthandPropertiesHyphenFallbackInterface d =
     (let base = vendorShorthandPropertiesHyphenInterface d
      in Interface INTERFACE_VENDOR_SHORTHAND_PROPERTIES_HYPHEN_FALLBACK (Interface.generics base) (extends base) True (properties base))"

definition vendorPropertiesHyphenFallbackInterface :: "definitionLists \<Rightarrow> Interface" where
  "vendorPropertiesHyphenFallbackInterface d =
     (let base = vendorPropertiesHyphenInterface d
      in Interface INTERFACE_VENDOR_PROPERTIES_HYPHEN_FALLBACK (Interface.generics base)
         [vendorLonghandPropertiesHyphenFallbackInterface d,
          vendorShorthandPropertiesHyphenFallbackInterface d]
         True (properties base))"

definition svgPropertiesHyphenFallbackInterface :: "definitionLists \<Rightarrow> Interface" where
  "svgPropertiesHyphenFallbackInterface d =
     (let base = svgPropertiesHyphenInterface d
      in Interface INTERFACE_SVG_PROPERTIES_HYPHEN_FALLBACK (Interface.generics base) (extends base) True (properties base))"

definition allPropertiesHyphenFallbackInterface :: "definitionLists \<Rightarrow> Interface" where
  "allPropertiesHyphenFallbackInterface d =
     (let base = allPropertiesHyphenInterface d
      in Interface INTERFACE_ALL_PROPERTIES_HYPHEN_FALLBACK (Interface.generics base)
         [standardPropertiesHyphenFallbackInterface d,
          vendorPropertiesHyphenFallbackInterface d,
          svgPropertiesHyphenFallbackInterface d]
         True (properties base))"

section \<open>Notions of the statements\<close>

text \<open>
  The canonical order: ascending by the number of the kind; among string literals by the
  order of strings, among numeric literals by the order of numbers.
\<close>

definition literal_le :: "TypeType \<Rightarrow> TypeType \<Rightarrow> bool" where
  "literal_le a b =
     (case (a, b) of
        (IStringLiteral x, IStringLiteral y) \<Rightarrow> x \<le> y
      | (INumericLiteral x, INumericLiteral y) \<Rightarrow> x \<le> y
      | _ \<Rightarrow> True)"

definition canonical_le :: "(Type \<Rightarrow> int) \<Rightarrow> TypeType \<Rightarrow> TypeType \<Rightarrow> bool" where
  "canonical_le ord a b =
     (ord (type a) < ord (type b) \<or> (ord (type a) = ord (type b) \<and> literal_le a b))"

text \<open>
  \<open>declarable\<close> sorts by the kinds as they stand before data types become aliases. The
  result is in canonical order when no other kind is numbered between \<open>Alias\<close> and
  \<open>DataType\<close>.
\<close>

definition adjacent_kinds :: "(Type \<Rightarrow> int) \<Rightarrow> bool" where
  "adjacent_kinds ord =
     (\<forall>k. k \<noteq> Alias \<longrightarrow> k \<noteq> DataType \<longrightarrow> (ord k < ord Alias) = (ord k < ord DataType))"


text \<open>
  A type list refers to nothing that the registry only inherits: every reference it holds
  whose name the registry inherits is also a key of the registry's own. The same of every
  list that the registry holds.
\<close>

definition own_references :: "registry \<Rightarrow> TypeType list \<Rightarrow> bool" where
  "own_references reg tys =
     (\<forall>n. IDataType n \<in> set tys \<longrightarrow> n \<in> set (inherited reg) \<longrightarrow> own reg n \<noteq> None)"

definition own_registry :: "registry \<Rightarrow> bool" where
  "own_registry reg = (\<forall>k ts. own reg k = Some ts \<longrightarrow> own_references reg ts)"

text \<open>The same of every list of a table of properties, and of the five tables.\<close>

definition own_table :: "registry \<Rightarrow> table \<Rightarrow> bool" where
  "own_table reg props = (\<forall>tys\<in>snd ` set props. own_references reg tys)"

definition own_tables :: "registry \<Rightarrow> tables \<Rightarrow> bool" where
  "own_tables reg tbl =
     (own_table reg (standardLonghandProperties tbl) \<and>
      own_table reg (standardShorthandProperties tbl) \<and>
      own_table reg (vendorPrefixedLonghandProperties tbl) \<and>
      own_table reg (vendorPrefixedShorthandProperties tbl) \<and>
      own_table reg (svgProperties tbl))"

text \<open>
  A computation bounded by the depth of calls settles when from some depth on it comes to
  the same end, a value or an error; it yields when that end is a value, of which the
  first argument says what is known.
\<close>

definition settles :: "(nat \<Rightarrow> 'a result) \<Rightarrow> bool" where
  "settles f = (\<exists>N r. \<forall>fuel\<ge>N. f fuel = Some r)"

definition yields :: "('a \<Rightarrow> bool) \<Rightarrow> (nat \<Rightarrow> 'a result) \<Rightarrow> bool" where
  "yields P f = (\<exists>N v. P v \<and> (\<forall>fuel\<ge>N. f fuel = Some (Inr v)))"

text \<open>
  The generics that the assembly gives a definition: none, or the one length generic.
\<close>

definition lengthGenerics :: "IPropertyAlias list \<Rightarrow> bool" where
  "lengthGenerics defs =
     list_all (\<lambda>p. IPropertyAlias.generics p = [] \<or> IPropertyAlias.generics p = [lengthGeneric]) defs"

text \<open>
  A fallback interface as a copy of its base: the same generics and properties, the
  fallback flag set, and \<open>Fallback\<close> at the end of the name.
\<close>

definition fallback_copy :: "Interface \<Rightarrow> Interface \<Rightarrow> bool" where
  "fallback_copy base fb =
     (Interface.generics fb = Interface.generics base \<and> properties fb = properties base \<and>
      fallback fb \<and> \<not> fallback base \<and> Interface.name fb = Interface.name base @ FALLBACK)"

text \<open>
  An example registry for the concrete checks, an object written \<^verbatim>\<open>{}\<close> and then filled:
  \<open>width\<close> refers to \<open>length-percentage\<close>, which holds \<open>Length\<close>.
\<close>

definition example_dataTypes :: registry where
  "example_dataTypes =
     \<lparr>own =
        [''length-percentage'' \<mapsto> [ILength, IString],
         ''width'' \<mapsto> [IStringLiteral ''auto'', IDataType ''length-percentage'']],
      inherited = Object_prototype\<rparr>"

definition example_rank :: "string \<Rightarrow> nat" where
  "example_rank n = (if n = ''width'' then 1 else 0)"

text \<open>
  Stand-ins for what the modules outside the sources provide: a numbering of the kinds, and
  casing functions that only mark their argument.
\<close>

fun example_ordinal :: "Type \<Rightarrow> int" where
  "example_ordinal Alias = 0"
| "example_ordinal DataType = 1"
| "example_ordinal Length = 2"
| "example_ordinal StringLiteral = 3"
| "example_ordinal NumericLiteral = 4"
| "example_ordinal String = 5"
| "example_ordinal Number = 6"

definition example_imported :: imported where
  "example_imported =
     \<lparr>ordinal = example_ordinal,
      toPascalCase = (\<lambda>s. ''P<'' @ s @ ''>''),
      toCamelCase = (\<lambda>s. ''c<'' @ s @ ''>''),
      toVendorPrefixCase = (\<lambda>s. ''V<'' @ s @ ''>''),
      dataTypes = example_dataTypes,
      globals = [IStringLiteral ''initial'', IStringLiteral ''inherit'', IStringLiteral ''unset'']\<rparr>"

definition example_tables :: tables where
  "example_tables =
     \<lparr>standardLonghandProperties =
        [(''width'', [IStringLiteral ''auto'', IDataType ''width'']),
         (''color'', [IDataType ''made-up''])],
      standardShorthandProperties = [(''all'', [])],
      vendorPrefixedLonghandProperties = [],
      vendorPrefixedShorthandProperties = [],
      svgProperties = [(''width'', [IStringLiteral ''auto'', IDataType ''width''])]\<rparr>"

definition example_widthProperty :: IDeclaration where
  "example_widthProperty =
     \<lparr>IDeclaration.name = ''P<width>Property'', export = False,
      types = [IAlias ''Globals'' [], IAlias ''P<width>'' [lengthGeneric], IStringLiteral ''auto''],
      generics = [lengthGeneric]\<rparr>"

definition example_svg_assembly :: assembly where
  "example_svg_assembly =
     \<lparr>declarations = [example_widthProperty],
      definitions =
        [\<lparr>IPropertyAlias.name = ''c<width>'', generics = [lengthGeneric],
            alias = IAlias ''P<width>Property'' []\<rparr>],
      hyphenDefinitions =
        [\<lparr>IPropertyAlias.name = ''width'', generics = [lengthGeneric],
            alias = IAlias ''P<width>Property'' []\<rparr>]\<rparr>"

definition example_definitions :: definitionLists where
  "example_definitions =
    \<lparr>standardLonghandPropertiesDefinition =
      [\<lparr>IPropertyAlias.name = ''c<color>'', generics = [],
          alias = IAlias ''GlobalsString'' []\<rparr>,
       \<lparr>IPropertyAlias.name = ''c<width>'', generics = [lengthGeneric],
          alias = IAlias ''P<width>Property'' []\<rparr>],
      standardShorthandPropertiesDefinition =
        [\<lparr>IPropertyAlias.name = ''c<all>'', generics = [],
            alias = IAlias ''Globals'' []\<rparr>],
      standardLonghandPropertiesHyphenDefinition =
        [\<lparr>IPropertyAlias.name = ''color'', generics = [],
            alias = IAlias ''GlobalsString'' []\<rparr>,
         \<lparr>IPropertyAlias.name = ''width'', generics = [lengthGeneric],
            alias = IAlias ''P<width>Property'' []\<rparr>],
      standardShorthandPropertiesHyphenDefinition =
        [\<lparr>IPropertyAlias.name = ''all'', generics = [],
            alias = IAlias ''Globals'' []\<rparr>],
      vendorLonghandPropertiesDefinition = [],
      vendorShorthandPropertiesDefinition = [],
      vendorLonghandPropertiesHyphenDefinition = [],
      vendorShorthandPropertiesHyphenDefinition = [],
      svgPropertiesDefinition =
        [\<lparr>IPropertyAlias.name = ''c<width>'', generics = [lengthGeneric],
            alias = IAlias ''P<width>Property'' []\<rparr>],
      svgPropertiesHyphenDefinition =
        [\<lparr>IPropertyAlias.name = ''width'', generics = [lengthGeneric],
            alias = IAlias ''P<width>Property'' []\<rparr>]\<rparr>"

definition example_all_assembly :: assembly where
  "example_all_assembly =
     \<lparr>declarations = [],
      definitions =
        [\<lparr>IPropertyAlias.name = ''c<all>'', generics = [], alias = IAlias ''Globals'' []\<rparr>],
      hyphenDefinitions =
        [\<lparr>IPropertyAlias.name = ''all'', generics = [], alias = IAlias ''Globals'' []\<rparr>]\<rparr>"

definition example_compatProperties :: "string \<Rightarrow> string list" where
  "example_compatProperties nm = (if nm = ''appearance'' then [''-moz-appearance''] else [])"

definition example_appearance :: "string \<times> property_data" where
  "example_appearance = (''appearance'', \<lparr>syntax' = ''auto'', computedIsArray = False\<rparr>)"

definition example_moz_appearance :: "string \<times> property_data" where
  "example_moz_appearance = (''-moz-appearance'', \<lparr>syntax' = ''button'', computedIsArray = False\<rparr>)"

definition example_color :: "string \<times> property_data" where
  "example_color = (''color'', \<lparr>syntax' = ''red'', computedIsArray = False\<rparr>)"

section \<open>Properties of \<open>lengthIn\<close>\<close>

lemma result_map_conv: "result_map f r = map_option (map_sum id f) r"
  by (cases "(f, r)" rule: result_map.cases) simp_all


lemma result_map_eq_Inl: "result_map f r = Some (Inl e) \<longleftrightarrow> r = Some (Inl e)"
  by (cases "(f, r)" rule: result_map.cases) auto

lemma result_map_eq_None: "result_map f r = None \<longleftrightarrow> r = None"
  by (cases "(f, r)" rule: result_map.cases) auto

lemma result_map_eq_Some:
  "result_map f r = Some s \<longleftrightarrow> (\<exists>r'. r = Some r' \<and> s = map_sum id f r')"
  by (cases "(f, r)" rule: result_map.cases) auto

lemma every_result_mono:
  "every_result p xs = Some r \<Longrightarrow> (\<And>x c. x \<in> set xs \<Longrightarrow> p x = Some c \<Longrightarrow> q x = Some c) \<Longrightarrow>
   every_result q xs = Some r"
  by (induction xs) (auto split: option.splits sum.splits bool.splits)

lemma every_result_total:
  "(\<And>x. x \<in> set xs \<Longrightarrow> p x \<noteq> None) \<Longrightarrow> every_result p xs \<noteq> None"
  by (induction xs) (auto split: option.splits sum.splits bool.splits)


lemma every_result_error:
  "every_result p xs = Some (Inl e) \<Longrightarrow> \<exists>x\<in>set xs. p x = Some (Inl e)"
  by (induction xs) (auto split: option.splits sum.splits bool.splits)

lemma lengthIn_Suc:
  "lengthIn fuel dt tys = Some r \<Longrightarrow> lengthIn (Suc fuel) dt tys = Some r"
proof (induction fuel arbitrary: tys r)
  case 0
  then show ?case by simp
next
  case (Suc fuel)
  let ?cb = "\<lambda>t.
       case t of
         ILength \<Rightarrow> Some (Inr False)
       | IDataType name' \<Rightarrow>
           (if name' \<noteq> [] \<and> name_in dt name'
            then (case own dt name' of
                    Some types' \<Rightarrow> result_map Not (lengthIn fuel dt types')
                  | None \<Rightarrow> Some (Inl TypeError))
            else Some (Inr True))
       | _ \<Rightarrow> Some (Inr True)"
  from Suc.prems(1) have "\<exists>e. every_result ?cb tys = Some e \<and> r = map_sum id Not e"
    by (simp only: lengthIn.simps result_map_eq_Some)
  then obtain e where e: "every_result ?cb tys = Some e" and r: "r = map_sum id Not e"
    by blast
  have "every_result (\<lambda>t.
       case t of
         ILength \<Rightarrow> Some (Inr False)
       | IDataType name' \<Rightarrow>
           (if name' \<noteq> [] \<and> name_in dt name'
            then (case own dt name' of
                    Some types' \<Rightarrow> result_map Not (lengthIn (Suc fuel) dt types')
                  | None \<Rightarrow> Some (Inl TypeError))
            else Some (Inr True))
       | _ \<Rightarrow> Some (Inr True)) tys = Some e"
    by (rule every_result_mono [OF e])
       (auto simp: result_map_eq_Some simp del: lengthIn.simps
             split: TypeType.splits if_splits option.splits dest: Suc.IH)
  then show ?case using r by (subst lengthIn.simps) (simp add: result_map_eq_Some)
qed

lemma lengthIn_add:
  "lengthIn fuel dt tys = Some r \<Longrightarrow> lengthIn (fuel + k) dt tys = Some r"
  by (induction k) (auto dest: lengthIn_Suc)

lemma lengthIn_le:
  "lengthIn fuel dt tys = Some r \<Longrightarrow> fuel \<le> fuel' \<Longrightarrow> lengthIn fuel' dt tys = Some r"
  using lengthIn_add [of fuel dt tys r "fuel' - fuel"] by simp



lemma lengthIn_total:
  "ranked rank dt \<Longrightarrow>
   (\<And>m. IDataType m \<in> set tys \<Longrightarrow> own dt m \<noteq> None \<Longrightarrow> rank m < fuel) \<Longrightarrow>
   lengthIn (Suc fuel) dt tys \<noteq> None"
proof (induction fuel arbitrary: tys)
  case 0
  have "every_result (\<lambda>t.
       case t of
         ILength \<Rightarrow> Some (Inr False)
       | IDataType name' \<Rightarrow>
           (if name' \<noteq> [] \<and> name_in dt name'
            then (case own dt name' of
                    Some types' \<Rightarrow> result_map Not (lengthIn 0 dt types')
                  | None \<Rightarrow> Some (Inl TypeError))
            else Some (Inr True))
       | _ \<Rightarrow> Some (Inr True)) tys \<noteq> None"
    apply (rule every_result_total)
    using 0 by (auto split: TypeType.splits option.splits)
  then show ?case by (subst lengthIn.simps) (simp only: result_map_eq_None not_False_eq_True)
next
  case (Suc fuel)
  have "every_result (\<lambda>t.
       case t of
         ILength \<Rightarrow> Some (Inr False)
       | IDataType name' \<Rightarrow>
           (if name' \<noteq> [] \<and> name_in dt name'
            then (case own dt name' of
                    Some types' \<Rightarrow> result_map Not (lengthIn (Suc fuel) dt types')
                  | None \<Rightarrow> Some (Inl TypeError))
            else Some (Inr True))
       | _ \<Rightarrow> Some (Inr True)) tys \<noteq> None"
  proof (rule every_result_total)
    fix t assume t: "t \<in> set tys"
    show "(case t of
         ILength \<Rightarrow> Some (Inr False)
       | IDataType name' \<Rightarrow>
           (if name' \<noteq> [] \<and> name_in dt name'
            then (case own dt name' of
                    Some types' \<Rightarrow> result_map Not (lengthIn (Suc fuel) dt types')
                  | None \<Rightarrow> Some (Inl TypeError))
            else Some (Inr True))
       | _ \<Rightarrow> Some (Inr True)) \<noteq> None"
    proof (cases t)
      case (IDataType n)
      show ?thesis
      proof (cases "own dt n")
        case None
        with IDataType show ?thesis by simp
      next
        case (Some ts)
        have rn: "rank n < Suc fuel" using Suc.prems(2) t IDataType Some by auto
        have "lengthIn (Suc fuel) dt ts \<noteq> None"
        proof (rule Suc.IH [OF Suc.prems(1)])
          fix m assume "IDataType m \<in> set ts" "own dt m \<noteq> None"
          with Suc.prems(1) Some have "rank m < rank n" by (auto simp: ranked_def)
          with rn show "rank m < fuel" by simp
        qed
        then have "result_map Not (lengthIn (Suc fuel) dt ts) \<noteq> None"
          by (simp only: result_map_eq_None not_False_eq_True)
        with IDataType Some show ?thesis by (simp del: lengthIn.simps)
      qed
    qed auto
  qed
  then show ?case by (subst lengthIn.simps) (simp only: result_map_eq_None not_False_eq_True)
qed

lemma lengthIn_no_error:
  "lengthIn fuel dt tys = Some (Inl e) \<Longrightarrow> own_registry dt \<Longrightarrow> own_references dt tys \<Longrightarrow> False"
proof (induction fuel arbitrary: tys)
  case 0
  then show ?case by simp
next
  case (Suc fuel)
  let ?cb = "\<lambda>t.
       case t of
         ILength \<Rightarrow> Some (Inr False)
       | IDataType name' \<Rightarrow>
           (if name' \<noteq> [] \<and> name_in dt name'
            then (case own dt name' of
                    Some types' \<Rightarrow> result_map Not (lengthIn fuel dt types')
                  | None \<Rightarrow> Some (Inl TypeError))
            else Some (Inr True))
       | _ \<Rightarrow> Some (Inr True)"
  from Suc.prems(1) have "every_result ?cb tys = Some (Inl e)"
    by (simp only: lengthIn.simps result_map_eq_Inl)
  then obtain t where t: "t \<in> set tys" and c: "?cb t = Some (Inl e)"
    by (blast dest: every_result_error)
  show ?case
  proof (cases t)
    case (IDataType n)
    show ?thesis
    proof (cases "own dt n")
      case None
      with c IDataType have "n \<in> set (inherited dt)"
        by (auto simp: name_in_def split: if_splits)
      with Suc.prems(3) t IDataType None show ?thesis by (auto simp: own_references_def)
    next
      case (Some ts)
      with c IDataType have "lengthIn fuel dt ts = Some (Inl e)"
        by (auto simp: result_map_eq_Inl split: if_splits)
      moreover from Suc.prems(2) Some have "own_references dt ts"
        by (auto simp: own_registry_def)
      ultimately show ?thesis using Suc.IH Suc.prems(2) by blast
    qed
  qed (use c in auto)
qed

lemma rank_bound:
  "IDataType m \<in> set tys \<Longrightarrow>
   rank m < Suc (sum_list (map (\<lambda>t. case t of IDataType n \<Rightarrow> rank n | _ \<Rightarrow> 0) tys))"
  by (induction tys) auto

lemma lengthIn_returns:
  assumes "ranked rank dt"
  shows "\<exists>fuel r. lengthIn fuel dt tys = Some r"
proof -
  let ?k = "Suc (sum_list (map (\<lambda>t. case t of IDataType n \<Rightarrow> rank n | _ \<Rightarrow> 0) tys))"
  have "lengthIn (Suc ?k) dt tys \<noteq> None"
    using assms by (rule lengthIn_total) (rule rank_bound)
  then show ?thesis by blast
qed

lemma lengthIn_value:
  assumes "ranked rank dt" and "own_registry dt" and "own_references dt tys"
  shows "\<exists>fuel b. lengthIn fuel dt tys = Some (Inr b)"
proof -
  from lengthIn_returns [OF assms(1)] obtain fuel r where r: "lengthIn fuel dt tys = Some r"
    by blast
  show ?thesis
  proof (cases r)
    case (Inl e)
    with r assms(2,3) show ?thesis by (blast dest: lengthIn_no_error)
  next
    case (Inr b)
    with r show ?thesis by blast
  qed
qed

lemma example_ranked: "ranked example_rank example_dataTypes"
  by (auto simp: ranked_def example_rank_def example_dataTypes_def split: if_splits)

lemma example_own_registry: "own_registry example_dataTypes"
  by (auto simp: own_registry_def own_references_def example_dataTypes_def Object_prototype_def
           split: if_splits)

lemma example_own_Number_width':
  "own_references example_dataTypes [INumber, IDataType ''width'']"
  by (simp add: own_references_def example_dataTypes_def)

text \<open>
  C3, as amended. On a registry whose references between data types have no cycle,
  \<open>lengthIn\<close> comes to an end on every type list, and it returns a truth value when neither
  the list nor the registry refers to a name that the registry only inherits. Nothing in
  \<open>lengthIn\<close> guards against a cycle: on a data type that refers to itself it never returns.
\<close>

theorem lengthIn_terminates_ranked:
  "ranked rank dt \<Longrightarrow>
   (\<exists>fuel r. lengthIn fuel dt tys = Some r) \<and>
   (own_registry dt \<and> own_references dt tys \<longrightarrow> (\<exists>fuel b. lengthIn fuel dt tys = Some (Inr b)))"
  by (blast intro: lengthIn_returns lengthIn_value)

theorem lengthIn_terminates_ranked_witness:
  "ranked example_rank example_dataTypes \<and> own_registry example_dataTypes \<and>
   own_references example_dataTypes [INumber, IDataType ''width''] \<and>
   (\<exists>fuel r. lengthIn fuel example_dataTypes [INumber, IDataType ''width''] = Some r) \<and>
   (\<exists>fuel b. lengthIn fuel example_dataTypes [INumber, IDataType ''width''] = Some (Inr b))"
  using lengthIn_terminates_ranked [OF example_ranked, of "[INumber, IDataType ''width'']"]
    example_ranked example_own_registry example_own_Number_width'
  by blast

text \<open>
  The claim C3 as it stands fails: with a registry whose only data type \<open>a\<close> refers to
  itself, \<open>lengthIn\<close> on a reference to \<open>a\<close> returns at no depth.
\<close>

theorem lengthIn_self_reference_never_returns:
  "\<forall>fuel. lengthIn fuel \<lparr>own = [''a'' \<mapsto> [IDataType ''a'']], inherited = Object_prototype\<rparr>
     [IDataType ''a''] = None"
proof
  fix fuel
  show "lengthIn fuel \<lparr>own = [''a'' \<mapsto> [IDataType ''a'']], inherited = Object_prototype\<rparr>
     [IDataType ''a''] = None"
    by (induction fuel) (simp_all add: name_in_def)
qed

section \<open>Properties of \<open>declarable\<close>\<close>

lemma sorter_le_0:
  assumes "inj ord"
  shows "(sorter ord a b \<le> 0) = canonical_le ord a b"
proof -
  have eq: "\<And>x y. (ord x = ord y) = (x = y)" using assms by (simp add: inj_eq)
  show ?thesis
    by (cases a; cases b; simp add: canonical_le_def literal_le_def eq order.order_iff_strict; auto)
qed

lemma canonical_le_total: "\<not> canonical_le ord a b \<Longrightarrow> canonical_le ord b a"
  by (cases a; cases b; auto simp: canonical_le_def literal_le_def)

lemma canonical_le_trans:
  assumes "inj ord"
  shows "canonical_le ord a b \<Longrightarrow> canonical_le ord b c \<Longrightarrow> canonical_le ord a c"
proof -
  have eq: "\<And>x y. (ord x = ord y) = (x = y)" using assms by (simp add: inj_eq)
  have same: "type a = type b \<Longrightarrow> type b = type c \<Longrightarrow> literal_le a b \<Longrightarrow> literal_le b c \<Longrightarrow> literal_le a c"
    by (cases a; cases b; cases c; simp add: literal_le_def)
  show "canonical_le ord a b \<Longrightarrow> canonical_le ord b c \<Longrightarrow> canonical_le ord a c"
    unfolding canonical_le_def eq using same by force
qed

lemma set_insert_sorted: "set (insert_sorted cmp x xs) = insert x (set xs)"
  by (induction xs) auto

lemma mset_insert_sorted: "mset (insert_sorted cmp x xs) = add_mset x (mset xs)"
  by (induction xs) auto

lemma mset_array_sort: "mset (array_sort cmp xs) = mset xs"
  by (induction xs) (auto simp: mset_insert_sorted)

lemma sorted_insert_sorted:
  assumes tot: "\<And>a b. \<not> cmp a b \<le> 0 \<Longrightarrow> cmp b a \<le> 0"
    and tr: "\<And>a b c. cmp a b \<le> 0 \<Longrightarrow> cmp b c \<le> 0 \<Longrightarrow> cmp a c \<le> 0"
  shows "sorted_wrt (\<lambda>a b. cmp a b \<le> 0) xs \<Longrightarrow> sorted_wrt (\<lambda>a b. cmp a b \<le> 0) (insert_sorted cmp x xs)"
proof (induction xs)
  case Nil
  then show ?case by simp
next
  case (Cons y ys)
  show ?case
  proof (cases "cmp x y \<le> 0")
    case True
    with Cons.prems tr show ?thesis by auto
  next
    case False
    with tot have "cmp y x \<le> 0" by blast
    with False Cons show ?thesis by (auto simp: set_insert_sorted)
  qed
qed

lemma sorted_array_sort:
  assumes tot: "\<And>a b. \<not> cmp a b \<le> 0 \<Longrightarrow> cmp b a \<le> 0"
    and tr: "\<And>a b c. cmp a b \<le> 0 \<Longrightarrow> cmp b c \<le> 0 \<Longrightarrow> cmp a c \<le> 0"
  shows "sorted_wrt (\<lambda>a b. cmp a b \<le> 0) (array_sort cmp xs)"
  by (induction xs) (auto intro: sorted_insert_sorted [OF tot tr])

lemma sorted_array_sort_sorter:
  assumes "inj ord"
  shows "sorted_wrt (canonical_le ord) (array_sort (sorter ord) xs)"
proof -
  have "sorted_wrt (\<lambda>a b. sorter ord a b \<le> 0) (array_sort (sorter ord) xs)"
    by (rule sorted_array_sort)
       (auto simp: sorter_le_0 [OF assms] dest: canonical_le_total canonical_le_trans [OF assms])
  then show ?thesis by (simp add: sorter_le_0 [OF assms])
qed

lemma result_bind_eq_Inr:
  "result_bind r f = Some (Inr y) \<longleftrightarrow> (\<exists>x. r = Some (Inr x) \<and> f x = Some (Inr y))"
  by (cases "(r, f)" rule: result_bind.cases) auto

lemma result_bind_eq_Inl:
  "result_bind r f = Some (Inl e) \<longleftrightarrow>
     r = Some (Inl e) \<or> (\<exists>x. r = Some (Inr x) \<and> f x = Some (Inl e))"
  by (cases "(r, f)" rule: result_bind.cases) auto

lemma result_bind_eq_None:
  "result_bind r f = None \<longleftrightarrow> r = None \<or> (\<exists>x. r = Some (Inr x) \<and> f x = None)"
  by (cases "(r, f)" rule: result_bind.cases) auto

lemma map_results_Inr:
  "map_results f xs = Some (Inr ys) \<longleftrightarrow> list_all2 (\<lambda>x y. f x = Some (Inr y)) xs ys"
proof (induction xs arbitrary: ys)
  case Nil
  then show ?case by auto
next
  case (Cons x xs)
  then show ?case
    by (cases ys) (auto simp: result_bind_eq_Inr)
qed

lemma map_results_not_None:
  "(\<And>x. x \<in> set xs \<Longrightarrow> f x \<noteq> None) \<Longrightarrow> map_results f xs \<noteq> None"
  by (induction xs) (auto simp: result_bind_eq_None)

lemma map_results_error:
  "map_results f xs = Some (Inl e) \<Longrightarrow> \<exists>x\<in>set xs. f x = Some (Inl e)"
  by (induction xs) (auto simp: result_bind_eq_Inl)

lemma set_array_sort: "set (array_sort cmp xs) = set xs"
  by (induction xs) (auto simp: set_insert_sorted)

lemma list_all2_source:
  "list_all2 R xs ys \<Longrightarrow> y \<in> set ys \<Longrightarrow> \<exists>x\<in>set xs. R x y"
  by (induction rule: list_all2_induct) auto

lemma sorted_wrt_list_all2:
  assumes "list_all2 R xs ys" and "sorted_wrt P xs"
    and "\<And>a b a' b'. P a b \<Longrightarrow> R a a' \<Longrightarrow> R b b' \<Longrightarrow> Q a' b'"
  shows "sorted_wrt Q ys"
  using assms(1,2)
proof (induction rule: list_all2_induct)
  case Nil
  then show ?case by simp
next
  case (Cons x xs y ys)
  have "\<forall>y'\<in>set ys. Q y y'"
  proof
    fix y' assume "y' \<in> set ys"
    with Cons.hyps(2) obtain x' where "x' \<in> set xs" "R x' y'"
      by (blast dest: list_all2_source)
    with Cons.prems Cons.hyps(1) show "Q y y'" by (auto intro: assms(3))
  qed
  with Cons show ?case by simp
qed



lemma declarable_returns:
  assumes "ranked rank (dataTypes im)"
  shows "\<exists>fuel r. declarable im fuel tys = Some r"
proof -
  let ?k = "sum_list (map (\<lambda>t. case t of IDataType n \<Rightarrow> rank n | _ \<Rightarrow> 0) tys)"
  have "declarable im (Suc ?k) tys \<noteq> None"
    unfolding declarable_def
  proof (rule map_results_not_None)
    fix t assume "t \<in> set (array_sort (sorter (ordinal im)) tys)"
    then have t: "t \<in> set tys" by (simp add: set_array_sort)
    show "(case t of
         IDataType name' \<Rightarrow>
           result_bind
             (if name' \<noteq> [] \<and> name_in (dataTypes im) name'
              then (case own (dataTypes im) name' of
                      Some ts \<Rightarrow> lengthIn (Suc ?k) (dataTypes im) ts
                    | None \<Rightarrow> Some (Inl TypeError))
              else Some (Inr False))
             (\<lambda>b. Some (Inr (IAlias (toPascalCase im name') (if b then [lengthGeneric] else []))))
       | _ \<Rightarrow> Some (Inr t)) \<noteq> None"
    proof (cases t)
      case (IDataType n)
      show ?thesis
      proof (cases "own (dataTypes im) n")
        case None
        with IDataType show ?thesis by (simp add: result_bind_eq_None)
      next
        case (Some ts)
        from t IDataType have "rank n < Suc ?k" by (auto intro: rank_bound)
        have "lengthIn (Suc ?k) (dataTypes im) ts \<noteq> None"
        proof (rule lengthIn_total [OF assms])
          fix m assume "IDataType m \<in> set ts" "own (dataTypes im) m \<noteq> None"
          with assms Some have "rank m < rank n" by (auto simp: ranked_def)
          with \<open>rank n < Suc ?k\<close> show "rank m < ?k" by simp
        qed
        with IDataType Some show ?thesis by (simp add: result_bind_eq_None del: lengthIn.simps)
      qed
    qed auto
  qed
  then show ?thesis by blast
qed

lemma declarable_no_error:
  assumes "declarable im fuel tys = Some (Inl e)"
    and "own_registry (dataTypes im)" and "own_references (dataTypes im) tys"
  shows False
proof -
  from assms(1) obtain t where "t \<in> set (array_sort (sorter (ordinal im)) tys)"
    and c: "(case t of
         IDataType name' \<Rightarrow>
           result_bind
             (if name' \<noteq> [] \<and> name_in (dataTypes im) name'
              then (case own (dataTypes im) name' of
                      Some ts \<Rightarrow> lengthIn fuel (dataTypes im) ts
                    | None \<Rightarrow> Some (Inl TypeError))
              else Some (Inr False))
             (\<lambda>b. Some (Inr (IAlias (toPascalCase im name') (if b then [lengthGeneric] else []))))
       | _ \<Rightarrow> Some (Inr t)) = Some (Inl e)"
    unfolding declarable_def by (blast dest: map_results_error)
  then have t: "t \<in> set tys" by (simp add: set_array_sort)
  show False
  proof (cases t)
    case (IDataType n)
    show ?thesis
    proof (cases "own (dataTypes im) n")
      case None
      with c IDataType have "n \<in> set (inherited (dataTypes im))"
        by (auto simp: name_in_def result_bind_eq_Inl split: if_splits)
      with assms(3) t IDataType None show ?thesis by (auto simp: own_references_def)
    next
      case (Some ts)
      with c IDataType have "lengthIn fuel (dataTypes im) ts = Some (Inl e)"
        by (auto simp: result_bind_eq_Inl split: if_splits)
      moreover from assms(2) Some have "own_references (dataTypes im) ts"
        by (auto simp: own_registry_def)
      ultimately show ?thesis using assms(2) by (blast dest: lengthIn_no_error)
    qed
  qed (use c in auto)
qed



lemma declarable_value:
  assumes "ranked rank (dataTypes im)"
    and "own_registry (dataTypes im)" and "own_references (dataTypes im) tys"
  shows "\<exists>fuel out. declarable im fuel tys = Some (Inr out)"
proof -
  from declarable_returns [OF assms(1)] obtain fuel r where r: "declarable im fuel tys = Some r"
    by blast
  show ?thesis
  proof (cases r)
    case (Inl e)
    with r assms(2,3) show ?thesis by (blast dest: declarable_no_error)
  next
    case (Inr out)
    with r show ?thesis by blast
  qed
qed

lemma inj_example_ordinal: "inj example_ordinal"
proof (rule injI)
  fix x y assume "example_ordinal x = example_ordinal y"
  then show "x = y" by (cases x; cases y; simp)
qed

lemma adjacent_example_ordinal: "adjacent_kinds example_ordinal"
  unfolding adjacent_kinds_def
proof (intro allI impI)
  fix k assume "k \<noteq> Alias" "k \<noteq> DataType"
  then show "(example_ordinal k < example_ordinal Alias) = (example_ordinal k < example_ordinal DataType)"
    by (cases k) simp_all
qed

lemma rewritten_weak:
  assumes "(case t of
         IDataType name' \<Rightarrow>
           result_bind
             (if name' \<noteq> [] \<and> name_in (dataTypes im) name'
              then (case own (dataTypes im) name' of
                      Some ts \<Rightarrow> lengthIn fuel (dataTypes im) ts
                    | None \<Rightarrow> Some (Inl TypeError))
              else Some (Inr False))
             (\<lambda>b. Some (Inr (IAlias (toPascalCase im name') (if b then [lengthGeneric] else []))))
       | _ \<Rightarrow> Some (Inr t)) = Some (Inr y)"
  shows "case t of IDataType n \<Rightarrow> \<exists>g. y = IAlias (toPascalCase im n) g | _ \<Rightarrow> y = t"
  using assms by (cases t) (auto simp: result_bind_eq_Inr)

lemma declarable_Some_weak:
  assumes "declarable im fuel tys = Some (Inr out)"
  shows "list_all2 (\<lambda>t y. case t of IDataType n \<Rightarrow> \<exists>g. y = IAlias (toPascalCase im n) g | _ \<Rightarrow> y = t)
           (array_sort (sorter (ordinal im)) tys) out"
proof -
  from assms have "list_all2 (\<lambda>t y. (case t of
         IDataType name' \<Rightarrow>
           result_bind
             (if name' \<noteq> [] \<and> name_in (dataTypes im) name'
              then (case own (dataTypes im) name' of
                      Some ts \<Rightarrow> lengthIn fuel (dataTypes im) ts
                    | None \<Rightarrow> Some (Inl TypeError))
              else Some (Inr False))
             (\<lambda>b. Some (Inr (IAlias (toPascalCase im name') (if b then [lengthGeneric] else []))))
       | _ \<Rightarrow> Some (Inr t)) = Some (Inr y)) (array_sort (sorter (ordinal im)) tys) out"
    unfolding declarable_def map_results_Inr .
  then show ?thesis
    by (rule list_all2_mono) (rule rewritten_weak)
qed

lemma weak_canonical_le:
  assumes adj: "adjacent_kinds ord"
    and inj: "inj ord"
    and "canonical_le ord a b"
    and "case a of IDataType n \<Rightarrow> \<exists>g. a' = IAlias (f n) g | _ \<Rightarrow> a' = a"
    and "case b of IDataType n \<Rightarrow> \<exists>g. b' = IAlias (f n) g | _ \<Rightarrow> b' = b"
  shows "canonical_le ord a' b'"
proof -
  have eq: "\<And>x y. (ord x = ord y) = (x = y)" using inj by (simp add: inj_eq)
  have adj1: "(ord k < ord Alias) = (ord k < ord DataType)" if k: "k \<noteq> Alias" "k \<noteq> DataType" for k
    using adj k by (simp add: adjacent_kinds_def)
  have adj2: "(ord Alias < ord k) = (ord DataType < ord k)" if k: "k \<noteq> Alias" "k \<noteq> DataType" for k
  proof -
    have "ord k \<noteq> ord Alias" "ord k \<noteq> ord DataType" using eq k by auto
    with adj1 [OF k] show ?thesis by linarith
  qed
  from assms(4) obtain ga where a': "a' = (case a of IDataType n \<Rightarrow> IAlias (f n) ga | _ \<Rightarrow> a)"
    by (cases a) auto
  from assms(5) obtain gb where b': "b' = (case b of IDataType n \<Rightarrow> IAlias (f n) gb | _ \<Rightarrow> b)"
    by (cases b) auto
  show ?thesis
    unfolding a' b'
    using assms(3) adj1 [of Length] adj1 [of StringLiteral] adj1 [of NumericLiteral] adj1 [of String] adj1 [of Number]
      adj2 [of Length] adj2 [of StringLiteral] adj2 [of NumericLiteral] adj2 [of String] adj2 [of Number]
    by (cases a; cases b; simp add: canonical_le_def literal_le_def eq)
qed

lemma declarable_literals:
  "declarable im fuel [IStringLiteral ''c'', IStringLiteral ''a'', IStringLiteral ''b''] =
     Some (Inr [IStringLiteral ''a'', IStringLiteral ''b'', IStringLiteral ''c''])"
  "declarable im fuel [INumericLiteral 3, INumericLiteral 1, INumericLiteral 2] =
     Some (Inr [INumericLiteral 1, INumericLiteral 2, INumericLiteral 3])"
  by (simp_all add: declarable_def)

lemma example_declarable:
  "declarable example_imported 3 [IStringLiteral ''auto'', INumber, ILength, IDataType ''width'', INumericLiteral 0] =
     Some (Inr [IAlias ''P<width>'' [lengthGeneric], ILength, IStringLiteral ''auto'', INumericLiteral 0, INumber])"
  by (simp add: declarable_def example_imported_def example_dataTypes_def name_in_def numeral_3_eq_3)


lemma example_imported_ranked: "ranked example_rank (dataTypes example_imported)"
  by (simp add: example_imported_def example_ranked)

lemma example_imported_own: "own_registry (dataTypes example_imported)"
  by (simp add: example_imported_def example_own_registry)

lemma example_own_width: "own_references (dataTypes example_imported) [IDataType ''width'']"
  by (simp add: own_references_def example_imported_def example_dataTypes_def)

text \<open>
  C1. Whenever the numbers of the kinds are distinct and no kind is numbered between
  \<open>Alias\<close> and \<open>DataType\<close>, every list that \<open>declarable\<close> returns is in canonical order:
  ascending by the number of the kind, string literals among themselves by the order of
  strings, numeric literals among themselves by the order of numbers. It comes to an end on
  every list when the registry has no cycle, and then returns a list when neither the list
  nor the registry refers to a name that the registry only inherits. The literals c, a, b
  come out as a, b, c, and the numbers 3, 1, 2 as 1, 2, 3.
\<close>

theorem declarable_sorted:
  assumes "inj (ordinal im)" and "adjacent_kinds (ordinal im)"
  shows "(\<forall>fuel out. declarable im fuel tys = Some (Inr out) \<longrightarrow>
            sorted_wrt (canonical_le (ordinal im)) out) \<and>
         (ranked rank (dataTypes im) \<longrightarrow> (\<exists>fuel r. declarable im fuel tys = Some r)) \<and>
         (ranked rank (dataTypes im) \<and> own_registry (dataTypes im) \<and>
          own_references (dataTypes im) tys \<longrightarrow>
            (\<exists>fuel out. declarable im fuel tys = Some (Inr out))) \<and>
         (\<forall>fuel. declarable im fuel [IStringLiteral ''c'', IStringLiteral ''a'', IStringLiteral ''b''] =
            Some (Inr [IStringLiteral ''a'', IStringLiteral ''b'', IStringLiteral ''c''])) \<and>
         (\<forall>fuel. declarable im fuel [INumericLiteral 3, INumericLiteral 1, INumericLiteral 2] =
            Some (Inr [INumericLiteral 1, INumericLiteral 2, INumericLiteral 3]))"
proof (intro conjI allI impI)
  fix fuel out assume d: "declarable im fuel tys = Some (Inr out)"
  show "sorted_wrt (canonical_le (ordinal im)) out"
    by (rule sorted_wrt_list_all2 [OF declarable_Some_weak [OF d] sorted_array_sort_sorter [OF assms(1)]])
       (rule weak_canonical_le [OF assms(2,1)])
next
  assume "ranked rank (dataTypes im)"
  then show "\<exists>fuel r. declarable im fuel tys = Some r" by (rule declarable_returns)
next
  assume "ranked rank (dataTypes im) \<and> own_registry (dataTypes im) \<and>
          own_references (dataTypes im) tys"
  then show "\<exists>fuel out. declarable im fuel tys = Some (Inr out)"
    by (blast intro: declarable_value)
qed (rule declarable_literals)+

theorem declarable_sorted_witness:
  "inj (ordinal example_imported) \<and> adjacent_kinds (ordinal example_imported) \<and>
   ranked example_rank (dataTypes example_imported) \<and>
   own_registry (dataTypes example_imported) \<and>
   own_references (dataTypes example_imported) [IDataType ''width''] \<and>
   declarable example_imported 3 [IStringLiteral ''auto'', INumber, ILength, IDataType ''width'', INumericLiteral 0] =
     Some (Inr [IAlias ''P<width>'' [lengthGeneric], ILength, IStringLiteral ''auto'', INumericLiteral 0, INumber]) \<and>
   sorted_wrt (canonical_le (ordinal example_imported))
     [IAlias ''P<width>'' [lengthGeneric], ILength, IStringLiteral ''auto'', INumericLiteral 0, INumber] \<and>
   (\<exists>fuel r. declarable example_imported fuel [IDataType ''toString''] = Some r) \<and>
   (\<exists>fuel out. declarable example_imported fuel [IDataType ''width''] = Some (Inr out))"
proof -
  have i: "inj (ordinal example_imported)"
    by (simp add: example_imported_def inj_example_ordinal)
  have a: "adjacent_kinds (ordinal example_imported)"
    by (simp add: example_imported_def adjacent_example_ordinal)
  note r = example_imported_ranked
  note t = declarable_sorted [OF i a, of _ example_rank]
  from t [of "[IStringLiteral ''auto'', INumber, ILength, IDataType ''width'', INumericLiteral 0]"]
    example_declarable
  have s: "sorted_wrt (canonical_le (ordinal example_imported))
     [IAlias ''P<width>'' [lengthGeneric], ILength, IStringLiteral ''auto'', INumericLiteral 0, INumber]"
    by blast
  from t [of "[IDataType ''toString'']"] r
  have e: "\<exists>fuel r. declarable example_imported fuel [IDataType ''toString''] = Some r"
    by blast
  from t [of "[IDataType ''width'']"] r example_imported_own example_own_width
  have v: "\<exists>fuel out. declarable example_imported fuel [IDataType ''width''] = Some (Inr out)"
    by blast
  from i a r example_imported_own example_own_width example_declarable s e v
  show ?thesis by blast
qed





section \<open>Properties of \<open>filterMissingDataTypes\<close>\<close>





lemma set_filterMissingDataTypes:
  "set (filterMissingDataTypes dt tys) \<subseteq> insert IString (set tys)"
  unfolding filterMissingDataTypes_def Let_def by auto




lemma own_references_filterMissingDataTypes:
  "own_references dt tys \<Longrightarrow> own_references dt (filterMissingDataTypes dt tys)"
  using set_filterMissingDataTypes [of dt tys] by (auto simp: own_references_def)





section \<open>One step of the assembly\<close>

lemma result_bindE [consumes 1, case_names Bind]:
  "result_bind m f = Some (Inr y) \<Longrightarrow> (\<And>x. m = Some (Inr x) \<Longrightarrow> f x = Some (Inr y) \<Longrightarrow> P) \<Longrightarrow> P"
  by (auto simp: result_bind_eq_Inr)

lemma assemble_property_Some:
  assumes "assemble_property im fuel v props st n = Some (Inr st')"
  shows "\<exists>b d a.
     lengthIn fuel (dataTypes im) (filterMissingDataTypes (dataTypes im) (the (map_of props n))) = Some (Inr b) \<and>
     aliasOf im fuel d = Some (Inr a) \<and>
     definitions st' = definitions st @
       [\<lparr>IPropertyAlias.name = (if v then toVendorPrefixCase im n else toCamelCase im n),
         generics = (if b then [lengthGeneric] else []), alias = a\<rparr>] \<and>
     hyphenDefinitions st' = hyphenDefinitions st @
       [\<lparr>IPropertyAlias.name = n, generics = (if b then [lengthGeneric] else []), alias = a\<rparr>] \<and>
     (if filterMissingDataTypes (dataTypes im) (the (map_of props n)) = [] then
        globalsDeclaration im fuel = Some (Inr d) \<and> declarations st' = declarations st
      else if onlyContainsString (filterMissingDataTypes (dataTypes im) (the (map_of props n))) then
        globalsAndStringDeclaration im fuel = Some (Inr d) \<and> declarations st' = declarations st
      else if onlyContainsNumber (filterMissingDataTypes (dataTypes im) (the (map_of props n))) then
        globalsAndNumberDeclaration im fuel = Some (Inr d) \<and> declarations st' = declarations st
      else
        IDeclaration.name d = toPascalCase im n @ PROPERTY \<and>
        IDeclaration.generics d = (if b then [lengthGeneric] else []) \<and>
        declarations st' =
          (if declarationExists (declarations st) (toPascalCase im n @ PROPERTY)
           then declarations st else declarations st @ [d]))"
proof -
  let ?T = "filterMissingDataTypes (dataTypes im) (the (map_of props n))"
  note a = assms [unfolded assemble_property_def Let_def]
  from a show ?thesis
  proof (cases rule: result_bindE)
    case Bind': (Bind b)
    from Bind'(2) show ?thesis
    proof (cases rule: result_bindE)
      case (Bind p)
      obtain d ds where p: "p = (d, ds)" by (cases p)
      from Bind(2) obtain a where al: "aliasOf im fuel d = Some (Inr a)"
        and st': "st' = \<lparr>declarations = ds,
              definitions = definitions st @
                [\<lparr>IPropertyAlias.name =
                    (if v then toVendorPrefixCase im n else toCamelCase im n),
                  generics = (if b then [lengthGeneric] else []), alias = a\<rparr>],
              hyphenDefinitions = hyphenDefinitions st @
                [\<lparr>IPropertyAlias.name = n, generics = (if b then [lengthGeneric] else []), alias = a\<rparr>]\<rparr>"
        unfolding p by (auto simp: result_bind_eq_Inr)
      have ch: "(if ?T = [] then
        globalsDeclaration im fuel = Some (Inr d) \<and> ds = declarations st
      else if onlyContainsString ?T then
        globalsAndStringDeclaration im fuel = Some (Inr d) \<and> ds = declarations st
      else if onlyContainsNumber ?T then
        globalsAndNumberDeclaration im fuel = Some (Inr d) \<and> ds = declarations st
      else
        IDeclaration.name d = toPascalCase im n @ PROPERTY \<and>
        IDeclaration.generics d = (if b then [lengthGeneric] else []) \<and>
        ds =
          (if declarationExists (declarations st) (toPascalCase im n @ PROPERTY)
           then declarations st else declarations st @ [d]))"
        using Bind(1) unfolding p
        by (auto simp: result_bind_eq_Inr split: if_splits)
      show ?thesis
        apply (rule exI [of _ b], rule exI [of _ d], rule exI [of _ a])
        using Bind'(1) al st' ch
        apply (simp only: assembly.simps simp_thms)
        done
    qed
  qed
qed


lemma example_svg':
  "assemble_names example_imported 3 False (svgProperties example_tables)
     \<lparr>declarations = [example_widthProperty], definitions = [], hyphenDefinitions = []\<rparr> [''width''] =
   Some (Inr example_svg_assembly)"
  by code_simp

lemma example_svg_step:
  "assemble_property example_imported 3 False (svgProperties example_tables)
     \<lparr>declarations = [example_widthProperty], definitions = [], hyphenDefinitions = []\<rparr> ''width'' =
   Some (Inr example_svg_assembly)"
  by code_simp





section \<open>The assembly comes to an end on a registry with no cycle\<close>

lemma settles_Some: "settles (\<lambda>fuel. Some r)"
  by (auto simp: settles_def)

lemma settles_bind:
  assumes "settles m" and "\<And>x. settles (\<lambda>fuel. g fuel x)"
  shows "settles (\<lambda>fuel. result_bind (m fuel) (g fuel))"
proof -
  from assms(1) obtain N1 r where 1: "\<forall>fuel\<ge>N1. m fuel = Some r" by (auto simp: settles_def)
  show ?thesis
  proof (cases r)
    case (Inl e)
    with 1 have "\<forall>fuel\<ge>N1. result_bind (m fuel) (g fuel) = Some (Inl e)" by simp
    then show ?thesis unfolding settles_def by blast
  next
    case (Inr x)
    from assms(2) [of x] obtain N2 y where 2: "\<forall>fuel\<ge>N2. g fuel x = Some y"
      by (auto simp: settles_def)
    have "\<forall>fuel\<ge>max N1 N2. result_bind (m fuel) (g fuel) = Some y" using 1 2 Inr by simp
    then show ?thesis unfolding settles_def by blast
  qed
qed

lemma settles_if:
  "(c \<Longrightarrow> settles f) \<Longrightarrow> (\<not> c \<Longrightarrow> settles g) \<Longrightarrow> settles (\<lambda>fuel. if c then f fuel else g fuel)"
  by (cases c) simp_all

lemma settles_case_prod:
  "(\<And>a b. settles (\<lambda>fuel. f fuel a b)) \<Longrightarrow> settles (\<lambda>fuel. case p of (a, b) \<Rightarrow> f fuel a b)"
  by (cases p) simp

lemma settles_lengthIn:
  assumes "ranked rank dt"
  shows "settles (\<lambda>fuel. lengthIn fuel dt tys)"
proof -
  from lengthIn_returns [OF assms] obtain fuel0 r where "lengthIn fuel0 dt tys = Some r" by blast
  then have "\<forall>fuel\<ge>fuel0. lengthIn fuel dt tys = Some r" by (blast intro: lengthIn_le)
  then show ?thesis unfolding settles_def by blast
qed

lemma settles_map_results:
  "(\<And>x. x \<in> set xs \<Longrightarrow> settles (\<lambda>fuel. f fuel x)) \<Longrightarrow> settles (\<lambda>fuel. map_results (f fuel) xs)"
proof (induction xs)
  case Nil
  then show ?case by (simp add: settles_Some)
next
  case (Cons x xs)
  have 1: "settles (\<lambda>fuel. f fuel x)" by (rule Cons.prems) simp
  have 2: "settles (\<lambda>fuel. map_results (f fuel) xs)" by (rule Cons.IH) (simp add: Cons.prems)
  show ?case
    unfolding map_results.simps
    by (intro settles_bind settles_Some 1 2)
qed

lemma settles_declarable:
  assumes "ranked rank (dataTypes im)"
  shows "settles (\<lambda>fuel. declarable im fuel tys)"
  unfolding declarable_def
proof (rule settles_map_results)
  fix t
  show "settles (\<lambda>fuel. case t of
         IDataType name' \<Rightarrow>
           result_bind
             (if name' \<noteq> [] \<and> name_in (dataTypes im) name'
              then (case own (dataTypes im) name' of
                      Some ts \<Rightarrow> lengthIn fuel (dataTypes im) ts
                    | None \<Rightarrow> Some (Inl TypeError))
              else Some (Inr False))
             (\<lambda>b. Some (Inr (IAlias (toPascalCase im name') (if b then [lengthGeneric] else []))))
       | _ \<Rightarrow> Some (Inr t))"
  proof (cases t)
    case (IDataType n)
    show ?thesis
      unfolding IDataType TypeType.case
      by (cases "own (dataTypes im) n")
         (auto intro!: settles_Some settles_bind settles_if settles_lengthIn [OF assms])
  qed (simp_all add: settles_Some)
qed

lemma settles_aliasOf:
  assumes "ranked rank (dataTypes im)"
  shows "settles (\<lambda>fuel. aliasOf im fuel d)"
  unfolding aliasOf_def
  by (intro settles_bind settles_Some settles_lengthIn [OF assms])

lemma settles_globalsDeclaration:
  assumes "ranked rank (dataTypes im)"
  shows "settles (\<lambda>fuel. globalsDeclaration im fuel)"
  unfolding globalsDeclaration_def
  by (intro settles_bind settles_Some settles_declarable [OF assms])

lemma settles_globalsAndStringDeclaration:
  assumes "ranked rank (dataTypes im)"
  shows "settles (\<lambda>fuel. globalsAndStringDeclaration im fuel)"
  unfolding globalsAndStringDeclaration_def
  by (intro settles_bind settles_Some settles_declarable [OF assms] settles_aliasOf [OF assms]
      settles_globalsDeclaration [OF assms])

lemma settles_globalsAndNumberDeclaration:
  assumes "ranked rank (dataTypes im)"
  shows "settles (\<lambda>fuel. globalsAndNumberDeclaration im fuel)"
  unfolding globalsAndNumberDeclaration_def
  by (intro settles_bind settles_Some settles_declarable [OF assms] settles_aliasOf [OF assms]
      settles_globalsDeclaration [OF assms])

lemma settles_assemble_property:
  assumes "ranked rank (dataTypes im)"
  shows "settles (\<lambda>fuel. assemble_property im fuel v props st n)"
  unfolding assemble_property_def Let_def
  by (intro settles_bind settles_Some settles_if settles_case_prod settles_lengthIn [OF assms]
      settles_declarable [OF assms] settles_aliasOf [OF assms]
      settles_globalsDeclaration [OF assms] settles_globalsAndStringDeclaration [OF assms]
      settles_globalsAndNumberDeclaration [OF assms])

lemma settles_assemble_names:
  assumes "ranked rank (dataTypes im)"
  shows "settles (\<lambda>fuel. assemble_names im fuel v props st names)"
proof (induction names arbitrary: st)
  case Nil
  show ?case by (simp add: settles_Some)
next
  case (Cons n names)
  show ?case
    unfolding assemble_names.simps
    by (intro settles_bind settles_assemble_property [OF assms] Cons.IH)
qed

lemma settles_assemble_table:
  assumes "ranked rank (dataTypes im)"
  shows "settles (\<lambda>fuel. assemble_table im fuel v props ds0)"
  unfolding assemble_table_def by (rule settles_assemble_names [OF assms])

lemma settles_assemble_tables:
  assumes "ranked rank (dataTypes im)"
  shows "settles (\<lambda>fuel. assemble_tables im fuel tbl ds0)"
  unfolding assemble_tables_def
  by (intro settles_bind settles_Some settles_assemble_table [OF assms])

lemma settles_returns: "settles f \<Longrightarrow> \<exists>fuel r. f fuel = Some r"
  unfolding settles_def by blast

section \<open>The assembly returns where nothing refers to an inherited name\<close>

lemma yields_Some: "P v \<Longrightarrow> yields P (\<lambda>fuel. Some (Inr v))"
  by (auto simp: yields_def)

lemma yields_bind:
  assumes "yields P m" and "\<And>x. P x \<Longrightarrow> yields Q (\<lambda>fuel. g fuel x)"
  shows "yields Q (\<lambda>fuel. result_bind (m fuel) (g fuel))"
proof -
  from assms(1) obtain N1 x where p: "P x" and 1: "\<forall>fuel\<ge>N1. m fuel = Some (Inr x)"
    by (auto simp: yields_def)
  from assms(2) [OF p] obtain N2 y where q: "Q y" and 2: "\<forall>fuel\<ge>N2. g fuel x = Some (Inr y)"
    by (auto simp: yields_def)
  have "\<forall>fuel\<ge>max N1 N2. result_bind (m fuel) (g fuel) = Some (Inr y)" using 1 2 by simp
  with q show ?thesis unfolding yields_def by blast
qed

lemma yields_if:
  "(c \<Longrightarrow> yields P f) \<Longrightarrow> (\<not> c \<Longrightarrow> yields P g) \<Longrightarrow> yields P (\<lambda>fuel. if c then f fuel else g fuel)"
  by (cases c) simp_all

lemma yields_settled:
  assumes "settles f" and "\<And>fuel e. f fuel = Some (Inl e) \<Longrightarrow> False"
    and "\<And>fuel v. f fuel = Some (Inr v) \<Longrightarrow> P v"
  shows "yields P f"
proof -
  from assms(1) obtain N r where r: "\<forall>fuel\<ge>N. f fuel = Some r" by (auto simp: settles_def)
  then have n: "f N = Some r" by simp
  show ?thesis
  proof (cases r)
    case (Inl e)
    with n assms(2) show ?thesis by blast
  next
    case (Inr v)
    with n assms(3) have "P v" by blast
    with r Inr show ?thesis unfolding yields_def by blast
  qed
qed

lemma yields_returns: "yields P f \<Longrightarrow> \<exists>fuel v. f fuel = Some (Inr v)"
  unfolding yields_def by blast

lemma own_references_no_DataType:
  "\<forall>t\<in>set tys. type t \<noteq> DataType \<Longrightarrow> own_references dt tys"
  by (auto simp: own_references_def)

lemma declarable_no_DataType:
  assumes "declarable im fuel tys = Some (Inr out)"
  shows "\<forall>y\<in>set out. type y \<noteq> DataType"
proof
  fix y assume "y \<in> set out"
  with declarable_Some_weak [OF assms] obtain t
    where "case t of IDataType n \<Rightarrow> \<exists>g. y = IAlias (toPascalCase im n) g | _ \<Rightarrow> y = t"
    by (blast dest: list_all2_source)
  then show "type y \<noteq> DataType" by (cases t) auto
qed

lemma yields_lengthIn:
  assumes "ranked rank dt" and "own_registry dt" and "own_references dt tys"
  shows "yields (\<lambda>b. True) (\<lambda>fuel. lengthIn fuel dt tys)"
  by (rule yields_settled [OF settles_lengthIn [OF assms(1)]])
     (auto dest: lengthIn_no_error [OF _ assms(2,3)])

lemma yields_declarable:
  assumes "ranked rank (dataTypes im)" and "own_registry (dataTypes im)"
    and "own_references (dataTypes im) tys"
  shows "yields (\<lambda>out. \<forall>y\<in>set out. type y \<noteq> DataType) (\<lambda>fuel. declarable im fuel tys)"
  by (rule yields_settled [OF settles_declarable [OF assms(1)]])
     (auto dest: declarable_no_error [OF _ assms(2,3)] declarable_no_DataType)

lemma yields_aliasOf:
  assumes "ranked rank (dataTypes im)" and "own_registry (dataTypes im)"
    and "\<forall>t\<in>set (types d). type t \<noteq> DataType"
  shows "yields (\<lambda>a. type a = Alias) (\<lambda>fuel. aliasOf im fuel d)"
  unfolding aliasOf_def
  by (rule yields_bind [OF yields_lengthIn [OF assms(1,2) own_references_no_DataType [OF assms(3)]]])
     (simp add: yields_Some)

lemma yields_globalsDeclaration:
  assumes "ranked rank (dataTypes im)" and "own_registry (dataTypes im)"
    and "own_references (dataTypes im) (globals im)"
  shows "yields (\<lambda>d. \<forall>t\<in>set (types d). type t \<noteq> DataType) (\<lambda>fuel. globalsDeclaration im fuel)"
  unfolding globalsDeclaration_def
  by (rule yields_bind [OF yields_declarable [OF assms]]) (simp add: yields_Some)

lemma yields_globalsAnd:
  assumes "ranked rank (dataTypes im)" and "own_registry (dataTypes im)"
    and "own_references (dataTypes im) (globals im)" and "type k \<noteq> DataType"
  shows "yields (\<lambda>d. \<forall>t\<in>set (types d). type t \<noteq> DataType)
     (\<lambda>fuel. result_bind (globalsDeclaration im fuel) (\<lambda>g.
       result_bind (aliasOf im fuel g) (\<lambda>a.
       result_bind (declarable im fuel [a, k]) (\<lambda>ts.
       Some (Inr \<lparr>IDeclaration.name = nm, export = False, types = ts, generics = []\<rparr>)))))"
proof (rule yields_bind [OF yields_globalsDeclaration [OF assms(1-3)]])
  fix g :: IDeclaration assume g: "\<forall>t\<in>set (types g). type t \<noteq> DataType"
  show "yields (\<lambda>d. \<forall>t\<in>set (types d). type t \<noteq> DataType)
     (\<lambda>fuel. result_bind (aliasOf im fuel g) (\<lambda>a.
       result_bind (declarable im fuel [a, k]) (\<lambda>ts.
       Some (Inr \<lparr>IDeclaration.name = nm, export = False, types = ts, generics = []\<rparr>))))"
  proof (rule yields_bind [OF yields_aliasOf [OF assms(1,2) g]])
    fix a assume a: "type a = Alias"
    have "own_references (dataTypes im) [a, k]"
      by (rule own_references_no_DataType) (use a assms(4) in simp)
    from yields_declarable [OF assms(1,2) this]
    show "yields (\<lambda>d. \<forall>t\<in>set (types d). type t \<noteq> DataType)
       (\<lambda>fuel. result_bind (declarable im fuel [a, k]) (\<lambda>ts.
       Some (Inr \<lparr>IDeclaration.name = nm, export = False, types = ts, generics = []\<rparr>)))"
      by (rule yields_bind) (simp add: yields_Some)
  qed
qed

lemma yields_globalsAndStringDeclaration:
  assumes "ranked rank (dataTypes im)" and "own_registry (dataTypes im)"
    and "own_references (dataTypes im) (globals im)"
  shows "yields (\<lambda>d. \<forall>t\<in>set (types d). type t \<noteq> DataType)
     (\<lambda>fuel. globalsAndStringDeclaration im fuel)"
  unfolding globalsAndStringDeclaration_def
  by (rule yields_globalsAnd [OF assms]) simp

lemma yields_globalsAndNumberDeclaration:
  assumes "ranked rank (dataTypes im)" and "own_registry (dataTypes im)"
    and "own_references (dataTypes im) (globals im)"
  shows "yields (\<lambda>d. \<forall>t\<in>set (types d). type t \<noteq> DataType)
     (\<lambda>fuel. globalsAndNumberDeclaration im fuel)"
  unfolding globalsAndNumberDeclaration_def
  by (rule yields_globalsAnd [OF assms]) simp

lemma yields_assemble_property:
  assumes r: "ranked rank (dataTypes im)" and o: "own_registry (dataTypes im)"
    and g: "own_references (dataTypes im) (globals im)"
    and p: "own_references (dataTypes im) (the (map_of props n))"
  shows "yields (\<lambda>st'. True) (\<lambda>fuel. assemble_property im fuel v props st n)"
proof -
  let ?T = "filterMissingDataTypes (dataTypes im) (the (map_of props n))"
  let ?D = "\<lambda>d. \<forall>t\<in>set (types d). type t \<noteq> DataType"
  have T: "own_references (dataTypes im) ?T"
    using p by (rule own_references_filterMissingDataTypes)
  have pair: "yields (\<lambda>q. ?D (fst q)) (\<lambda>fuel. result_bind (m fuel) (\<lambda>d. Some (Inr (d, ds))))"
    if "yields ?D m" for m :: "nat \<Rightarrow> IDeclaration result" and ds :: "IDeclaration list"
    using that by (rule yields_bind) (simp add: yields_Some)
  show ?thesis
    unfolding assemble_property_def Let_def
  proof (rule yields_bind [OF yields_lengthIn [OF r o T]])
    fix b
    show "yields (\<lambda>st'. True) (\<lambda>fuel.
      result_bind
        (if length ?T = 0 then
           result_bind (globalsDeclaration im fuel) (\<lambda>g. Some (Inr (g, declarations st)))
         else if onlyContainsString ?T then
           result_bind (globalsAndStringDeclaration im fuel) (\<lambda>g. Some (Inr (g, declarations st)))
         else if onlyContainsNumber ?T then
           result_bind (globalsAndNumberDeclaration im fuel) (\<lambda>g. Some (Inr (g, declarations st)))
         else
           result_bind (globalsDeclaration im fuel) (\<lambda>g.
            result_bind (aliasOf im fuel g) (\<lambda>a.
            result_bind (declarable im fuel ?T) (\<lambda>ts.
            Some (Inr (\<lparr>IDeclaration.name = toPascalCase im n @ PROPERTY, export = False,
                         types = a # ts,
                         generics = (if b then [lengthGeneric] else [])\<rparr>,
                 if \<not> declarationExists (declarations st) (toPascalCase im n @ PROPERTY)
                 then declarations st @
                   [\<lparr>IDeclaration.name = toPascalCase im n @ PROPERTY, export = False,
                     types = a # ts,
                     generics = (if b then [lengthGeneric] else [])\<rparr>]
                 else declarations st))))))
        (\<lambda>(declaration, declarations').
      result_bind (aliasOf im fuel declaration) (\<lambda>a.
      Some (Inr \<lparr>declarations = declarations',
              definitions = definitions st @
                [\<lparr>IPropertyAlias.name =
                    (if v then toVendorPrefixCase im n else toCamelCase im n),
                  generics = (if b then [lengthGeneric] else []), alias = a\<rparr>],
              hyphenDefinitions = hyphenDefinitions st @
                [\<lparr>IPropertyAlias.name = n, generics = (if b then [lengthGeneric] else []),
                  alias = a\<rparr>]\<rparr>))))"
    proof (rule yields_bind [where P = "\<lambda>q. ?D (fst q)"])
      show "yields (\<lambda>q. ?D (fst q)) (\<lambda>fuel.
         if length ?T = 0 then
           result_bind (globalsDeclaration im fuel) (\<lambda>g. Some (Inr (g, declarations st)))
         else if onlyContainsString ?T then
           result_bind (globalsAndStringDeclaration im fuel) (\<lambda>g. Some (Inr (g, declarations st)))
         else if onlyContainsNumber ?T then
           result_bind (globalsAndNumberDeclaration im fuel) (\<lambda>g. Some (Inr (g, declarations st)))
         else
           result_bind (globalsDeclaration im fuel) (\<lambda>g.
            result_bind (aliasOf im fuel g) (\<lambda>a.
            result_bind (declarable im fuel ?T) (\<lambda>ts.
            Some (Inr (\<lparr>IDeclaration.name = toPascalCase im n @ PROPERTY, export = False,
                         types = a # ts,
                         generics = (if b then [lengthGeneric] else [])\<rparr>,
                 if \<not> declarationExists (declarations st) (toPascalCase im n @ PROPERTY)
                 then declarations st @
                   [\<lparr>IDeclaration.name = toPascalCase im n @ PROPERTY, export = False,
                     types = a # ts,
                     generics = (if b then [lengthGeneric] else [])\<rparr>]
                 else declarations st))))))"
      proof (intro yields_if)
        show "yields (\<lambda>q. ?D (fst q)) (\<lambda>fuel.
           result_bind (globalsDeclaration im fuel) (\<lambda>g. Some (Inr (g, declarations st))))"
          by (rule pair [OF yields_globalsDeclaration [OF r o g]])
        show "yields (\<lambda>q. ?D (fst q)) (\<lambda>fuel.
           result_bind (globalsAndStringDeclaration im fuel) (\<lambda>g. Some (Inr (g, declarations st))))"
          by (rule pair [OF yields_globalsAndStringDeclaration [OF r o g]])
        show "yields (\<lambda>q. ?D (fst q)) (\<lambda>fuel.
           result_bind (globalsAndNumberDeclaration im fuel) (\<lambda>g. Some (Inr (g, declarations st))))"
          by (rule pair [OF yields_globalsAndNumberDeclaration [OF r o g]])
        show "yields (\<lambda>q. ?D (fst q)) (\<lambda>fuel.
           result_bind (globalsDeclaration im fuel) (\<lambda>g.
            result_bind (aliasOf im fuel g) (\<lambda>a.
            result_bind (declarable im fuel ?T) (\<lambda>ts.
            Some (Inr (\<lparr>IDeclaration.name = toPascalCase im n @ PROPERTY, export = False,
                         types = a # ts,
                         generics = (if b then [lengthGeneric] else [])\<rparr>,
                 if \<not> declarationExists (declarations st) (toPascalCase im n @ PROPERTY)
                 then declarations st @
                   [\<lparr>IDeclaration.name = toPascalCase im n @ PROPERTY, export = False,
                     types = a # ts,
                     generics = (if b then [lengthGeneric] else [])\<rparr>]
                 else declarations st))))))"
        proof (rule yields_bind [OF yields_globalsDeclaration [OF r o g]])
          fix gd :: IDeclaration assume gd: "?D gd"
          show "yields (\<lambda>q. ?D (fst q)) (\<lambda>fuel.
            result_bind (aliasOf im fuel gd) (\<lambda>a.
            result_bind (declarable im fuel ?T) (\<lambda>ts.
            Some (Inr (\<lparr>IDeclaration.name = toPascalCase im n @ PROPERTY, export = False,
                         types = a # ts,
                         generics = (if b then [lengthGeneric] else [])\<rparr>,
                 if \<not> declarationExists (declarations st) (toPascalCase im n @ PROPERTY)
                 then declarations st @
                   [\<lparr>IDeclaration.name = toPascalCase im n @ PROPERTY, export = False,
                     types = a # ts,
                     generics = (if b then [lengthGeneric] else [])\<rparr>]
                 else declarations st)))))"
          proof (rule yields_bind [OF yields_aliasOf [OF r o gd]])
            fix a assume a: "type a = Alias"
            show "yields (\<lambda>q. ?D (fst q)) (\<lambda>fuel.
              result_bind (declarable im fuel ?T) (\<lambda>ts.
              Some (Inr (\<lparr>IDeclaration.name = toPascalCase im n @ PROPERTY, export = False,
                         types = a # ts,
                         generics = (if b then [lengthGeneric] else [])\<rparr>,
                 if \<not> declarationExists (declarations st) (toPascalCase im n @ PROPERTY)
                 then declarations st @
                   [\<lparr>IDeclaration.name = toPascalCase im n @ PROPERTY, export = False,
                     types = a # ts,
                     generics = (if b then [lengthGeneric] else [])\<rparr>]
                 else declarations st))))"
              by (rule yields_bind [OF yields_declarable [OF r o T]])
                 (rule yields_Some, simp add: a)
          qed
        qed
      qed
    next
      fix q :: "IDeclaration \<times> IDeclaration list"
      assume q: "?D (fst q)"
      obtain d ds where qq: "q = (d, ds)" by (cases q)
      with q have d: "?D d" by simp
      show "yields (\<lambda>st'. True) (\<lambda>fuel. case q of (declaration, declarations') \<Rightarrow>
        result_bind (aliasOf im fuel declaration) (\<lambda>a.
        Some (Inr \<lparr>declarations = declarations',
              definitions = definitions st @
                [\<lparr>IPropertyAlias.name =
                    (if v then toVendorPrefixCase im n else toCamelCase im n),
                  generics = (if b then [lengthGeneric] else []), alias = a\<rparr>],
              hyphenDefinitions = hyphenDefinitions st @
                [\<lparr>IPropertyAlias.name = n, generics = (if b then [lengthGeneric] else []),
                  alias = a\<rparr>]\<rparr>)))"
        unfolding qq prod.case
        by (rule yields_bind [OF yields_aliasOf [OF r o d]]) (simp add: yields_Some)
    qed
  qed
qed

lemma yields_assemble_names:
  assumes "ranked rank (dataTypes im)" and "own_registry (dataTypes im)"
    and "own_references (dataTypes im) (globals im)"
  shows "\<forall>n\<in>set names. own_references (dataTypes im) (the (map_of props n)) \<Longrightarrow>
     yields (\<lambda>st'. True) (\<lambda>fuel. assemble_names im fuel v props st names)"
proof (induction names arbitrary: st)
  case Nil
  show ?case by (simp add: yields_Some)
next
  case (Cons n names)
  from Cons.prems have n: "own_references (dataTypes im) (the (map_of props n))" by simp
  show ?case
    unfolding assemble_names.simps
    by (rule yields_bind [OF yields_assemble_property [OF assms n]]) (rule Cons.IH, use Cons.prems in simp)
qed

lemma own_table_names:
  assumes "own_table dt props"
  shows "\<forall>n\<in>set (sort (map fst props)). own_references dt (the (map_of props n))"
proof
  fix n assume "n \<in> set (sort (map fst props))"
  then have "n \<in> fst ` set props" by simp
  then obtain tys where m: "map_of props n = Some tys"
    by (cases "map_of props n") (auto simp: map_of_eq_None_iff)
  then have "(n, tys) \<in> set props" by (rule map_of_SomeD)
  with assms have "own_references dt tys" by (force simp: own_table_def)
  with m show "own_references dt (the (map_of props n))" by simp
qed

lemma yields_assemble_table:
  assumes "ranked rank (dataTypes im)" and "own_registry (dataTypes im)"
    and "own_references (dataTypes im) (globals im)" and "own_table (dataTypes im) props"
  shows "yields (\<lambda>st'. True) (\<lambda>fuel. assemble_table im fuel v props ds0)"
  unfolding assemble_table_def
  by (rule yields_assemble_names [OF assms(1-3) own_table_names [OF assms(4)]])

lemma yields_assemble_tables:
  assumes "ranked rank (dataTypes im)" and "own_registry (dataTypes im)"
    and "own_references (dataTypes im) (globals im)" and "own_tables (dataTypes im) tbl"
  shows "yields (\<lambda>r. True) (\<lambda>fuel. assemble_tables im fuel tbl ds0)"
proof -
  note t = yields_assemble_table [OF assms(1-3)]
  from assms(4) have o: "own_table (dataTypes im) (standardLonghandProperties tbl)"
    "own_table (dataTypes im) (standardShorthandProperties tbl)"
    "own_table (dataTypes im) (vendorPrefixedLonghandProperties tbl)"
    "own_table (dataTypes im) (vendorPrefixedShorthandProperties tbl)"
    "own_table (dataTypes im) (svgProperties tbl)"
    by (simp_all add: own_tables_def)
  show ?thesis
    unfolding assemble_tables_def
    by (intro yields_bind [where P = "\<lambda>st'. True"] t o) (simp add: yields_Some)
qed

section \<open>The shared list of declarations\<close>

lemma declarationExists_iff:
  "declarationExists ds nm = (nm \<in> IDeclaration.name ` set ds)"
  unfolding declarationExists_def list_all_iff by blast

lemma aliasOf_Some: "aliasOf im fuel d = Some (Inr a) \<Longrightarrow> \<exists>g. a = IAlias (IDeclaration.name d) g"
  unfolding aliasOf_def by (erule result_bindE) auto

lemma globalsDeclaration_name: "globalsDeclaration im fuel = Some (Inr d) \<Longrightarrow> IDeclaration.name d = ''Globals''"
  unfolding globalsDeclaration_def by (erule result_bindE) auto

lemma globalsAndStringDeclaration_name:
  "globalsAndStringDeclaration im fuel = Some (Inr d) \<Longrightarrow> IDeclaration.name d = ''GlobalsString''"
  unfolding globalsAndStringDeclaration_def by (erule result_bindE)+ auto

lemma globalsAndNumberDeclaration_name:
  "globalsAndNumberDeclaration im fuel = Some (Inr d) \<Longrightarrow> IDeclaration.name d = ''GlobalsNumber''"
  unfolding globalsAndNumberDeclaration_def by (erule result_bindE)+ auto

lemma distinct_map_append:
  assumes "distinct (map f xs)" "distinct (map f ys)" "\<forall>y\<in>set ys. f y \<notin> f ` set xs"
  shows "distinct (map f (xs @ ys))"
proof -
  have "set (map f xs) \<inter> set (map f ys) = {}"
  proof (rule ccontr)
    assume "set (map f xs) \<inter> set (map f ys) \<noteq> {}"
    then obtain z where z: "z \<in> f ` set xs" "z \<in> f ` set ys" by auto
    then obtain y where "y \<in> set ys" "z = f y" by auto
    with assms(3) z(1) show False by simp
  qed
  with assms(1,2) show ?thesis by (simp only: map_append distinct_append simp_thms)
qed

lemma assemble_property_choice:
  assumes "assemble_property im fuel v props st n = Some (Inr st')"
  obtains b d a where
    "aliasOf im fuel d = Some (Inr a)"
    "definitions st' = definitions st @
       [\<lparr>IPropertyAlias.name = (if v then toVendorPrefixCase im n else toCamelCase im n),
         generics = (if b then [lengthGeneric] else []), alias = a\<rparr>]"
    "hyphenDefinitions st' = hyphenDefinitions st @
       [\<lparr>IPropertyAlias.name = n, generics = (if b then [lengthGeneric] else []), alias = a\<rparr>]"
    "(globalsDeclaration im fuel = Some (Inr d) \<or> globalsAndStringDeclaration im fuel = Some (Inr d) \<or>
      globalsAndNumberDeclaration im fuel = Some (Inr d)) \<and> declarations st' = declarations st \<or>
     IDeclaration.name d = toPascalCase im n @ PROPERTY \<and>
     declarations st' =
       (if declarationExists (declarations st) (toPascalCase im n @ PROPERTY)
        then declarations st else declarations st @ [d])"
proof -
  let ?T = "filterMissingDataTypes (dataTypes im) (the (map_of props n))"
  from assemble_property_Some [OF assms] obtain b d a where
    al: "aliasOf im fuel d = Some (Inr a)"
    and defs: "definitions st' = definitions st @
       [\<lparr>IPropertyAlias.name = (if v then toVendorPrefixCase im n else toCamelCase im n),
         generics = (if b then [lengthGeneric] else []), alias = a\<rparr>]"
     "hyphenDefinitions st' = hyphenDefinitions st @
       [\<lparr>IPropertyAlias.name = n, generics = (if b then [lengthGeneric] else []), alias = a\<rparr>]"
    and ch: "if ?T = [] then
        globalsDeclaration im fuel = Some (Inr d) \<and> declarations st' = declarations st
      else if onlyContainsString ?T then
        globalsAndStringDeclaration im fuel = Some (Inr d) \<and> declarations st' = declarations st
      else if onlyContainsNumber ?T then
        globalsAndNumberDeclaration im fuel = Some (Inr d) \<and> declarations st' = declarations st
      else
        IDeclaration.name d = toPascalCase im n @ PROPERTY \<and>
        IDeclaration.generics d = (if b then [lengthGeneric] else []) \<and>
        declarations st' =
          (if declarationExists (declarations st) (toPascalCase im n @ PROPERTY)
           then declarations st else declarations st @ [d])"
    by blast
  from ch have "(globalsDeclaration im fuel = Some (Inr d) \<or> globalsAndStringDeclaration im fuel = Some (Inr d) \<or>
      globalsAndNumberDeclaration im fuel = Some (Inr d)) \<and> declarations st' = declarations st \<or>
     IDeclaration.name d = toPascalCase im n @ PROPERTY \<and>
     declarations st' =
       (if declarationExists (declarations st) (toPascalCase im n @ PROPERTY)
        then declarations st else declarations st @ [d])"
    by (cases "?T = []"; cases "onlyContainsString ?T"; cases "onlyContainsNumber ?T"; simp)
  with al defs show ?thesis by (rule that)
qed

lemma assemble_property_declarations:
  assumes "assemble_property im fuel v props st n = Some (Inr st')"
  shows "if declarationExists (declarations st) (toPascalCase im n @ PROPERTY)
         then declarations st' = declarations st
         else declarations st' = declarations st \<or>
              (\<exists>d. declarations st' = declarations st @ [d] \<and>
                   IDeclaration.name d = toPascalCase im n @ PROPERTY)"
proof -
  from assms obtain b d a where
    "(globalsDeclaration im fuel = Some (Inr d) \<or> globalsAndStringDeclaration im fuel = Some (Inr d) \<or>
      globalsAndNumberDeclaration im fuel = Some (Inr d)) \<and> declarations st' = declarations st \<or>
     IDeclaration.name d = toPascalCase im n @ PROPERTY \<and>
     declarations st' =
       (if declarationExists (declarations st) (toPascalCase im n @ PROPERTY)
        then declarations st else declarations st @ [d])"
    by (rule assemble_property_choice)
  then show ?thesis
    by (cases "declarationExists (declarations st) (toPascalCase im n @ PROPERTY)") auto
qed

lemma assemble_property_alias:
  assumes "assemble_property im fuel v props st n = Some (Inr st')"
  shows "\<exists>nm g. alias (last (definitions st')) = IAlias nm g \<and>
           alias (last (hyphenDefinitions st')) = IAlias nm g \<and>
           (nm = ''Globals'' \<or> nm = ''GlobalsString'' \<or> nm = ''GlobalsNumber'' \<or>
            (nm = toPascalCase im n @ PROPERTY \<and> declarationExists (declarations st') nm))"
proof -
  from assms obtain b d a where
    al: "aliasOf im fuel d = Some (Inr a)"
    and defs: "definitions st' = definitions st @
       [\<lparr>IPropertyAlias.name = (if v then toVendorPrefixCase im n else toCamelCase im n),
         generics = (if b then [lengthGeneric] else []), alias = a\<rparr>]"
     "hyphenDefinitions st' = hyphenDefinitions st @
       [\<lparr>IPropertyAlias.name = n, generics = (if b then [lengthGeneric] else []), alias = a\<rparr>]"
    and ch: "(globalsDeclaration im fuel = Some (Inr d) \<or> globalsAndStringDeclaration im fuel = Some (Inr d) \<or>
      globalsAndNumberDeclaration im fuel = Some (Inr d)) \<and> declarations st' = declarations st \<or>
     IDeclaration.name d = toPascalCase im n @ PROPERTY \<and>
     declarations st' =
       (if declarationExists (declarations st) (toPascalCase im n @ PROPERTY)
        then declarations st else declarations st @ [d])"
    by (rule assemble_property_choice)
  from aliasOf_Some [OF al] obtain g where a: "a = IAlias (IDeclaration.name d) g" by blast
  from ch have "IDeclaration.name d = ''Globals'' \<or> IDeclaration.name d = ''GlobalsString'' \<or>
      IDeclaration.name d = ''GlobalsNumber'' \<or>
      (IDeclaration.name d = toPascalCase im n @ PROPERTY \<and>
       declarationExists (declarations st') (IDeclaration.name d))"
  proof (elim disjE conjE)
    assume "IDeclaration.name d = toPascalCase im n @ PROPERTY"
      and "declarations st' =
       (if declarationExists (declarations st) (toPascalCase im n @ PROPERTY)
        then declarations st else declarations st @ [d])"
    then have "declarationExists (declarations st') (IDeclaration.name d)"
      by (cases "declarationExists (declarations st) (toPascalCase im n @ PROPERTY)")
         (simp_all add: declarationExists_iff)
    with \<open>IDeclaration.name d = toPascalCase im n @ PROPERTY\<close> show ?thesis by simp
  qed (simp_all add: globalsDeclaration_name globalsAndStringDeclaration_name globalsAndNumberDeclaration_name)
  with a defs show ?thesis by simp
qed

lemma assemble_property_new:
  assumes "assemble_property im fuel v props st n = Some (Inr st')"
  shows "\<exists>new. declarations st' = declarations st @ new \<and> distinct (map IDeclaration.name new) \<and>
           (\<forall>d\<in>set new. \<not> declarationExists (declarations st) (IDeclaration.name d))"
proof (cases "declarations st' = declarations st")
  case True
  then show ?thesis by (intro exI [of _ "[]"]) simp
next
  case False
  with assemble_property_declarations [OF assms] obtain d where
    "\<not> declarationExists (declarations st) (toPascalCase im n @ PROPERTY)"
    "declarations st' = declarations st @ [d]" "IDeclaration.name d = toPascalCase im n @ PROPERTY"
    by (auto split: if_splits)
  then show ?thesis by (intro exI [of _ "[d]"]) simp
qed

lemma assemble_names_new:
  "assemble_names im fuel v props st names = Some (Inr st') \<Longrightarrow>
   \<exists>new. declarations st' = declarations st @ new \<and> distinct (map IDeclaration.name new) \<and>
     (\<forall>d\<in>set new. \<not> declarationExists (declarations st) (IDeclaration.name d))"
proof (induction names arbitrary: st)
  case Nil
  then show ?case by simp
next
  case (Cons n names)
  from Cons.prems obtain st1 where s1: "assemble_property im fuel v props st n = Some (Inr st1)"
    and s2: "assemble_names im fuel v props st1 names = Some (Inr st')"
    by (auto simp: result_bind_eq_Inr)
  from assemble_property_new [OF s1] obtain new1 where
    n1: "declarations st1 = declarations st @ new1" "distinct (map IDeclaration.name new1)"
      "\<forall>d\<in>set new1. \<not> declarationExists (declarations st) (IDeclaration.name d)"
    by blast
  from Cons.IH [OF s2] obtain new2 where
    n2: "declarations st' = declarations st1 @ new2" "distinct (map IDeclaration.name new2)"
      "\<forall>d\<in>set new2. \<not> declarationExists (declarations st1) (IDeclaration.name d)"
    by blast
  show ?case
  proof (intro exI [of _ "new1 @ new2"] conjI)
    show "declarations st' = declarations st @ new1 @ new2" using n1 n2 by simp
    show "distinct (map IDeclaration.name (new1 @ new2))"
      using n1(2) n2(2)
    proof (rule distinct_map_append)
      show "\<forall>y\<in>set new2. IDeclaration.name y \<notin> IDeclaration.name ` set new1"
        using n2(3) n1(1) by (simp add: declarationExists_iff image_Un)
    qed
    show "\<forall>d\<in>set (new1 @ new2). \<not> declarationExists (declarations st) (IDeclaration.name d)"
      using n1 n2 by (auto simp: declarationExists_iff)
  qed
qed

lemma find_append_existing:
  "\<exists>x\<in>set xs. P x \<Longrightarrow> find P (xs @ ys) = find P xs"
  by (induction xs) auto

text \<open>
  C6. A step of the property loop leaves \<open>declarations\<close> as it is when a declaration of
  the property's name is present, and otherwise appends at most the one declaration of that
  name; the definition it makes is an alias named after one of the three global
  declarations or after the property's declaration, which is then present. So over the whole
  loop the list only grows at its end, by declarations of new and pairwise different names:
  the first declaration of a name stays the one found under that name, and distinct names
  stay distinct. The loop comes to an end when the registry has no cycle, and then returns
  when neither the registry, nor the global values, nor the list of a property refers to a
  name that the registry only inherits.
\<close>

theorem declarations_first_wins:
  "(assemble_property im fuel v props st n = Some (Inr st') \<longrightarrow>
      (if declarationExists (declarations st) (toPascalCase im n @ PROPERTY)
       then declarations st' = declarations st
       else declarations st' = declarations st \<or>
            (\<exists>d. declarations st' = declarations st @ [d] \<and>
                 IDeclaration.name d = toPascalCase im n @ PROPERTY)) \<and>
      (\<exists>nm g. alias (last (definitions st')) = IAlias nm g \<and>
         alias (last (hyphenDefinitions st')) = IAlias nm g \<and>
         (nm = ''Globals'' \<or> nm = ''GlobalsString'' \<or> nm = ''GlobalsNumber'' \<or>
          (nm = toPascalCase im n @ PROPERTY \<and> declarationExists (declarations st') nm)))) \<and>
   (assemble_names im fuel v props st names = Some (Inr st'') \<longrightarrow>
      (\<exists>new. declarations st'' = declarations st @ new \<and> distinct (map IDeclaration.name new) \<and>
         (\<forall>d\<in>set new. \<not> declarationExists (declarations st) (IDeclaration.name d))) \<and>
      (\<forall>nm. declarationExists (declarations st) nm \<longrightarrow>
         find (\<lambda>d. IDeclaration.name d = nm) (declarations st'') =
         find (\<lambda>d. IDeclaration.name d = nm) (declarations st)) \<and>
      (distinct (map IDeclaration.name (declarations st)) \<longrightarrow>
         distinct (map IDeclaration.name (declarations st'')))) \<and>
   (ranked rank (dataTypes im) \<longrightarrow>
      (\<exists>fuel r. assemble_names im fuel v props st names = Some r)) \<and>
   (ranked rank (dataTypes im) \<and> own_registry (dataTypes im) \<and>
    own_references (dataTypes im) (globals im) \<and>
    (\<forall>n\<in>set names. own_references (dataTypes im) (the (map_of props n))) \<longrightarrow>
      (\<exists>fuel st'. assemble_names im fuel v props st names = Some (Inr st')))"
proof (intro conjI impI allI)
  assume "ranked rank (dataTypes im)"
  then show "\<exists>fuel r. assemble_names im fuel v props st names = Some r"
    by (intro settles_returns settles_assemble_names)
next
  assume "ranked rank (dataTypes im) \<and> own_registry (dataTypes im) \<and>
    own_references (dataTypes im) (globals im) \<and>
    (\<forall>n\<in>set names. own_references (dataTypes im) (the (map_of props n)))"
  then have "yields (\<lambda>st'. True) (\<lambda>fuel. assemble_names im fuel v props st names)"
    by (blast intro: yields_assemble_names)
  then show "\<exists>fuel st'. assemble_names im fuel v props st names = Some (Inr st')"
    by (rule yields_returns)
next
  assume a: "assemble_property im fuel v props st n = Some (Inr st')"
  show "if declarationExists (declarations st) (toPascalCase im n @ PROPERTY)
       then declarations st' = declarations st
       else declarations st' = declarations st \<or>
            (\<exists>d. declarations st' = declarations st @ [d] \<and>
                 IDeclaration.name d = toPascalCase im n @ PROPERTY)"
    using a by (rule assemble_property_declarations)
  show "\<exists>nm g. alias (last (definitions st')) = IAlias nm g \<and>
         alias (last (hyphenDefinitions st')) = IAlias nm g \<and>
         (nm = ''Globals'' \<or> nm = ''GlobalsString'' \<or> nm = ''GlobalsNumber'' \<or>
          (nm = toPascalCase im n @ PROPERTY \<and> declarationExists (declarations st') nm))"
    using a by (rule assemble_property_alias)
next
  assume a: "assemble_names im fuel v props st names = Some (Inr st'')"
  from assemble_names_new [OF a] obtain new where
    new: "declarations st'' = declarations st @ new" "distinct (map IDeclaration.name new)"
      "\<forall>d\<in>set new. \<not> declarationExists (declarations st) (IDeclaration.name d)"
    by blast
  then show "\<exists>new. declarations st'' = declarations st @ new \<and> distinct (map IDeclaration.name new) \<and>
         (\<forall>d\<in>set new. \<not> declarationExists (declarations st) (IDeclaration.name d))"
    by blast
  show "find (\<lambda>d. IDeclaration.name d = nm) (declarations st'') =
         find (\<lambda>d. IDeclaration.name d = nm) (declarations st)"
    if "declarationExists (declarations st) nm" for nm
    using that new(1) by (auto simp: declarationExists_iff intro!: find_append_existing)
  show "distinct (map IDeclaration.name (declarations st''))"
    if "distinct (map IDeclaration.name (declarations st))"
    unfolding new(1) using that new(2)
  proof (rule distinct_map_append)
    show "\<forall>y\<in>set new. IDeclaration.name y \<notin> IDeclaration.name ` set (declarations st)"
      using new(3) by (simp add: declarationExists_iff)
  qed
qed

lemma example_own_globals:
  "own_references (dataTypes example_imported) (globals example_imported)"
  by (simp add: own_references_def example_imported_def)

lemma example_own_svg:
  "\<forall>n\<in>set [''width'']. own_references (dataTypes example_imported)
     (the (map_of (svgProperties example_tables) n))"
  by (simp add: own_references_def example_imported_def example_dataTypes_def example_tables_def)

theorem declarations_first_wins_witness:
  "assemble_property example_imported 3 False (svgProperties example_tables)
     \<lparr>declarations = [example_widthProperty], definitions = [], hyphenDefinitions = []\<rparr> ''width'' =
     Some (Inr example_svg_assembly) \<and>
   assemble_names example_imported 3 False (svgProperties example_tables)
     \<lparr>declarations = [example_widthProperty], definitions = [], hyphenDefinitions = []\<rparr> [''width''] =
     Some (Inr example_svg_assembly) \<and>
   declarationExists [example_widthProperty] (toPascalCase example_imported ''width'' @ PROPERTY) \<and>
   declarations example_svg_assembly = [example_widthProperty] \<and>
   find (\<lambda>d. IDeclaration.name d = ''P<width>Property'') (declarations example_svg_assembly) =
     find (\<lambda>d. IDeclaration.name d = ''P<width>Property'') [example_widthProperty] \<and>
   distinct (map IDeclaration.name (declarations example_svg_assembly)) \<and>
   ranked example_rank (dataTypes example_imported) \<and>
   own_registry (dataTypes example_imported) \<and>
   own_references (dataTypes example_imported) (globals example_imported) \<and>
   (\<exists>fuel st'. assemble_names example_imported fuel False (svgProperties example_tables)
     \<lparr>declarations = [example_widthProperty], definitions = [], hyphenDefinitions = []\<rparr> [''width''] =
     Some (Inr st'))"
proof -
  let ?st = "\<lparr>declarations = [example_widthProperty], definitions = [], hyphenDefinitions = []\<rparr>"
  have e: "declarationExists [example_widthProperty] (toPascalCase example_imported ''width'' @ PROPERTY)"
    by (simp add: declarationExists_def example_widthProperty_def example_imported_def PROPERTY_def)
  have e': "declarationExists (declarations ?st) ''P<width>Property''"
    by (simp add: declarationExists_def example_widthProperty_def)
  have d: "distinct (map IDeclaration.name (declarations ?st))" by simp
  note t = declarations_first_wins [of example_imported 3 False "svgProperties example_tables" ?st
      "''width''" example_svg_assembly "[''width'']" example_svg_assembly example_rank]
  from t example_svg_step e have 1: "declarations example_svg_assembly = [example_widthProperty]"
    by simp
  from t example_svg' e' have 2:
    "find (\<lambda>d. IDeclaration.name d = ''P<width>Property'') (declarations example_svg_assembly) =
     find (\<lambda>d. IDeclaration.name d = ''P<width>Property'') [example_widthProperty]"
    by simp
  from t example_svg' d have 3: "distinct (map IDeclaration.name (declarations example_svg_assembly))"
    by blast
  note u = declarations_first_wins [of example_imported _ False "svgProperties example_tables" ?st
      "''width''" _ "[''width'']" _ example_rank]
  from u example_imported_ranked example_imported_own example_own_globals example_own_svg
  have 4: "\<exists>fuel st'. assemble_names example_imported fuel False (svgProperties example_tables)
     ?st [''width''] = Some (Inr st')"
    by blast
  from example_svg_step example_svg' e 1 2 3 4 example_imported_ranked example_imported_own
    example_own_globals
  show ?thesis by blast
qed

section \<open>Properties of \<open>genericsOf\<close>\<close>

lemma set_Set_add_all: "set (Set_add_all s xs) = set s \<union> set xs"
  by (induction xs arbitrary: s) auto

lemma distinct_Set_add_all: "distinct s \<Longrightarrow> distinct (Set_add_all s xs)"
  by (induction xs arbitrary: s) auto

lemma distinct_genericsOf: "distinct (genericsOf defs)"
  by (simp add: genericsOf_def distinct_Set_add_all)

lemma distinct_in_singleton: "distinct xs \<Longrightarrow> set xs \<subseteq> {a} \<Longrightarrow> xs = [] \<or> xs = [a]"
proof (cases xs)
  case Nil
  then show ?thesis by simp
next
  case (Cons x ys)
  assume "distinct xs" "set xs \<subseteq> {a}"
  with Cons show ?thesis by (cases ys) auto
qed

lemma genericsOf_lengthGenerics:
  assumes "lengthGenerics defs"
  shows "genericsOf defs = [] \<or> genericsOf defs = [lengthGeneric]"
proof -
  from assms have "set (genericsOf defs) \<subseteq> {lengthGeneric}"
    by (auto simp: genericsOf_def set_Set_add_all lengthGenerics_def list_all_iff)
  with distinct_genericsOf show ?thesis by (rule distinct_in_singleton)
qed

lemma lengthGenerics_append: "lengthGenerics (xs @ ys) = (lengthGenerics xs \<and> lengthGenerics ys)"
  by (simp add: lengthGenerics_def)

lemma assemble_property_lengthGenerics:
  assumes "assemble_property im fuel v props st n = Some (Inr st')"
    and "lengthGenerics (definitions st)" "lengthGenerics (hyphenDefinitions st)"
  shows "lengthGenerics (definitions st') \<and> lengthGenerics (hyphenDefinitions st')"
proof -
  from assemble_property_Some [OF assms(1)] obtain b a where
    "definitions st' = definitions st @
       [\<lparr>IPropertyAlias.name = (if v then toVendorPrefixCase im n else toCamelCase im n),
         generics = (if b then [lengthGeneric] else []), alias = a\<rparr>]"
    "hyphenDefinitions st' = hyphenDefinitions st @
       [\<lparr>IPropertyAlias.name = n, generics = (if b then [lengthGeneric] else []), alias = a\<rparr>]"
    by blast
  with assms(2,3) show ?thesis by (simp add: lengthGenerics_append) (simp add: lengthGenerics_def)
qed

lemma assemble_names_lengthGenerics:
  "assemble_names im fuel v props st names = Some (Inr st') \<Longrightarrow>
   lengthGenerics (definitions st) \<Longrightarrow> lengthGenerics (hyphenDefinitions st) \<Longrightarrow>
   lengthGenerics (definitions st') \<and> lengthGenerics (hyphenDefinitions st')"
proof (induction names arbitrary: st)
  case Nil
  then show ?case by simp
next
  case (Cons n names)
  from Cons.prems(1) obtain st1 where s1: "assemble_property im fuel v props st n = Some (Inr st1)"
    and s2: "assemble_names im fuel v props st1 names = Some (Inr st')"
    by (auto simp: result_bind_eq_Inr)
  from assemble_property_lengthGenerics [OF s1 Cons.prems(2,3)] Cons.IH [OF s2]
  show ?case by blast
qed

lemma assemble_table_lengthGenerics:
  "assemble_table im fuel v props ds0 = Some (Inr a) \<Longrightarrow>
   lengthGenerics (definitions a) \<and> lengthGenerics (hyphenDefinitions a)"
  unfolding assemble_table_def
  by (drule assemble_names_lengthGenerics) (simp_all add: lengthGenerics_def)

lemma assemble_tables_lengthGenerics:
  assumes "assemble_tables im fuel tbl ds0 = Some (Inr (ds, d))"
  shows "lengthGenerics (standardLonghandPropertiesDefinition d) \<and>
         lengthGenerics (standardShorthandPropertiesDefinition d) \<and>
         lengthGenerics (vendorLonghandPropertiesDefinition d) \<and>
         lengthGenerics (vendorShorthandPropertiesDefinition d) \<and>
         lengthGenerics (svgPropertiesDefinition d)"
proof -
  from assms obtain a1 a2 a3 a4 a5 where
    a: "assemble_table im fuel False (standardLonghandProperties tbl) ds0 = Some (Inr a1)"
       "assemble_table im fuel False (standardShorthandProperties tbl) (declarations a1) = Some (Inr a2)"
       "assemble_table im fuel True (vendorPrefixedLonghandProperties tbl) (declarations a2) = Some (Inr a3)"
       "assemble_table im fuel True (vendorPrefixedShorthandProperties tbl) (declarations a3) = Some (Inr a4)"
       "assemble_table im fuel False (svgProperties tbl) (declarations a4) = Some (Inr a5)"
    and d: "d = \<lparr>standardLonghandPropertiesDefinition = definitions a1,
          standardShorthandPropertiesDefinition = definitions a2,
          standardLonghandPropertiesHyphenDefinition = hyphenDefinitions a1,
          standardShorthandPropertiesHyphenDefinition = hyphenDefinitions a2,
          vendorLonghandPropertiesDefinition = definitions a3,
          vendorShorthandPropertiesDefinition = definitions a4,
          vendorLonghandPropertiesHyphenDefinition = hyphenDefinitions a3,
          vendorShorthandPropertiesHyphenDefinition = hyphenDefinitions a4,
          svgPropertiesDefinition = definitions a5,
          svgPropertiesHyphenDefinition = hyphenDefinitions a5\<rparr>"
    unfolding assemble_tables_def by (auto simp: result_bind_eq_Inr)
  from a [THEN assemble_table_lengthGenerics] show ?thesis unfolding d by simp
qed

lemma example_assembly:
  "assemble_tables example_imported 3 example_tables [] =
     Some (Inr ([example_widthProperty], example_definitions))"
  by code_simp

lemma example_lengthGenerics:
  "lengthGenerics (standardLonghandPropertiesDefinition example_definitions)"
  by code_simp

text \<open>
  C9. \<open>genericsOf\<close> returns a list with no element twice. When every definition has no
  generics or the one \<open>lengthGeneric\<close>, the result is \<open>[]\<close> or \<open>[lengthGeneric]\<close>; the
  definitions that the property loops make are of this kind, so each of the eight lists of
  generics computed for the property interfaces is \<open>[]\<close> or \<open>[lengthGeneric]\<close>. The loops
  come to an end when the registry has no cycle, and then return when neither the registry,
  nor the global values, nor a list of the tables refers to a name that the registry only
  inherits.
\<close>

theorem genericsOf_duplicate_free:
  "distinct (genericsOf defs) \<and>
   (lengthGenerics defs \<longrightarrow> genericsOf defs = [] \<or> genericsOf defs = [lengthGeneric]) \<and>
   (assemble_tables im fuel tbl ds0 = Some (Inr (ds, d)) \<longrightarrow>
      list_all (\<lambda>g. g = [] \<or> g = [lengthGeneric])
        [standardLonghandPropertiesGenerics d, standardShorthandPropertiesGenerics d,
         standardPropertiesGenerics d, vendorLonghandPropertiesGenerics d,
         vendorShorthandPropertiesGenerics d, vendorPropertiesGenerics d,
         svgPropertiesGenerics d, allPropertiesGenerics d]) \<and>
   (ranked rank (dataTypes im) \<longrightarrow>
      (\<exists>fuel r. assemble_tables im fuel tbl ds0 = Some r)) \<and>
   (ranked rank (dataTypes im) \<and> own_registry (dataTypes im) \<and>
    own_references (dataTypes im) (globals im) \<and> own_tables (dataTypes im) tbl \<longrightarrow>
      (\<exists>fuel r. assemble_tables im fuel tbl ds0 = Some (Inr r)))"
proof (intro conjI impI)
  assume "ranked rank (dataTypes im)"
  then show "\<exists>fuel r. assemble_tables im fuel tbl ds0 = Some r"
    by (intro settles_returns settles_assemble_tables)
next
  assume "ranked rank (dataTypes im) \<and> own_registry (dataTypes im) \<and>
    own_references (dataTypes im) (globals im) \<and> own_tables (dataTypes im) tbl"
  then have "yields (\<lambda>r. True) (\<lambda>fuel. assemble_tables im fuel tbl ds0)"
    by (blast intro: yields_assemble_tables)
  then show "\<exists>fuel r. assemble_tables im fuel tbl ds0 = Some (Inr r)"
    by (rule yields_returns)
next
  show "distinct (genericsOf defs)" by (rule distinct_genericsOf)
next
  assume "lengthGenerics defs"
  then show "genericsOf defs = [] \<or> genericsOf defs = [lengthGeneric]" by (rule genericsOf_lengthGenerics)
next
  assume "assemble_tables im fuel tbl ds0 = Some (Inr (ds, d))"
  note l = assemble_tables_lengthGenerics [OF this]
  have g: "\<And>xs. lengthGenerics xs \<Longrightarrow> genericsOf xs = [] \<or> genericsOf xs = [lengthGeneric]"
    by (rule genericsOf_lengthGenerics)
  have 1: "standardLonghandPropertiesGenerics d = [] \<or> standardLonghandPropertiesGenerics d = [lengthGeneric]"
    unfolding standardLonghandPropertiesGenerics_def using l by (intro g) simp
  have 2: "standardShorthandPropertiesGenerics d = [] \<or> standardShorthandPropertiesGenerics d = [lengthGeneric]"
    unfolding standardShorthandPropertiesGenerics_def using l by (intro g) simp
  have 3: "standardPropertiesGenerics d = [] \<or> standardPropertiesGenerics d = [lengthGeneric]"
    unfolding standardPropertiesGenerics_def using l by (intro g) (simp add: lengthGenerics_append)
  have 4: "vendorLonghandPropertiesGenerics d = [] \<or> vendorLonghandPropertiesGenerics d = [lengthGeneric]"
    unfolding vendorLonghandPropertiesGenerics_def using l by (intro g) simp
  have 5: "vendorShorthandPropertiesGenerics d = [] \<or> vendorShorthandPropertiesGenerics d = [lengthGeneric]"
    unfolding vendorShorthandPropertiesGenerics_def using l by (intro g) simp
  have 6: "vendorPropertiesGenerics d = [] \<or> vendorPropertiesGenerics d = [lengthGeneric]"
    unfolding vendorPropertiesGenerics_def using l by (intro g) (simp add: lengthGenerics_append)
  have 7: "svgPropertiesGenerics d = [] \<or> svgPropertiesGenerics d = [lengthGeneric]"
    unfolding svgPropertiesGenerics_def using l by (intro g) simp
  have 8: "allPropertiesGenerics d = [] \<or> allPropertiesGenerics d = [lengthGeneric]"
    unfolding allPropertiesGenerics_def using l by (intro g) (simp add: lengthGenerics_append)
  from 1 2 3 4 5 6 7 8
  show "list_all (\<lambda>g. g = [] \<or> g = [lengthGeneric])
        [standardLonghandPropertiesGenerics d, standardShorthandPropertiesGenerics d,
         standardPropertiesGenerics d, vendorLonghandPropertiesGenerics d,
         vendorShorthandPropertiesGenerics d, vendorPropertiesGenerics d,
         svgPropertiesGenerics d, allPropertiesGenerics d]"
    by simp
qed

lemma example_own_tables: "own_tables (dataTypes example_imported) example_tables"
  by (simp add: own_tables_def own_table_def own_references_def example_imported_def
        example_dataTypes_def example_tables_def Object_prototype_def)

theorem genericsOf_duplicate_free_witness:
  "lengthGenerics (standardLonghandPropertiesDefinition example_definitions) \<and>
   (genericsOf (standardLonghandPropertiesDefinition example_definitions) = [] \<or>
    genericsOf (standardLonghandPropertiesDefinition example_definitions) = [lengthGeneric]) \<and>
   assemble_tables example_imported 3 example_tables [] =
     Some (Inr ([example_widthProperty], example_definitions)) \<and>
   list_all (\<lambda>g. g = [] \<or> g = [lengthGeneric])
     [standardLonghandPropertiesGenerics example_definitions,
      standardShorthandPropertiesGenerics example_definitions,
      standardPropertiesGenerics example_definitions,
      vendorLonghandPropertiesGenerics example_definitions,
      vendorShorthandPropertiesGenerics example_definitions,
      vendorPropertiesGenerics example_definitions,
      svgPropertiesGenerics example_definitions,
      allPropertiesGenerics example_definitions] \<and>
   ranked example_rank (dataTypes example_imported) \<and>
   own_registry (dataTypes example_imported) \<and>
   own_references (dataTypes example_imported) (globals example_imported) \<and>
   own_tables (dataTypes example_imported) example_tables \<and>
   (\<exists>fuel r. assemble_tables example_imported fuel example_tables [] = Some (Inr r))"
proof -
  note t = genericsOf_duplicate_free [of "standardLonghandPropertiesDefinition example_definitions"
      example_imported 3 example_tables "[]" "[example_widthProperty]" example_definitions
      example_rank]
  from t example_lengthGenerics
  have 1: "genericsOf (standardLonghandPropertiesDefinition example_definitions) = [] \<or>
    genericsOf (standardLonghandPropertiesDefinition example_definitions) = [lengthGeneric]"
    by blast
  from t example_assembly
  have 2: "list_all (\<lambda>g. g = [] \<or> g = [lengthGeneric])
     [standardLonghandPropertiesGenerics example_definitions,
      standardShorthandPropertiesGenerics example_definitions,
      standardPropertiesGenerics example_definitions,
      vendorLonghandPropertiesGenerics example_definitions,
      vendorShorthandPropertiesGenerics example_definitions,
      vendorPropertiesGenerics example_definitions,
      svgPropertiesGenerics example_definitions,
      allPropertiesGenerics example_definitions]"
    by blast
  note u = genericsOf_duplicate_free [of "standardLonghandPropertiesDefinition example_definitions"
      example_imported _ example_tables "[]" _ _ example_rank]
  from u example_imported_ranked example_imported_own example_own_globals example_own_tables
  have 3: "\<exists>fuel r. assemble_tables example_imported fuel example_tables [] = Some (Inr r)"
    by blast
  from example_lengthGenerics 1 example_assembly 2 3 example_imported_ranked example_imported_own
    example_own_globals example_own_tables
  show ?thesis by blast
qed

section \<open>Properties with an empty list\<close>

lemma process_property_all:
  "process_property compatProperties parse typing tbl (''all'', p) = tbl"
  by (simp add: process_property_def IGNORES_def)

lemma filterMissingDataTypes_Nil: "filterMissingDataTypes dt [] = []"
  by (simp add: filterMissingDataTypes_def)

lemma assemble_property_Globals:
  assumes "assemble_property im fuel v props st n = Some (Inr st')"
    and "filterMissingDataTypes (dataTypes im) (the (map_of props n)) = []"
  shows "declarations st' = declarations st \<and>
      (\<exists>g. alias (last (definitions st')) = IAlias ''Globals'' g \<and>
           alias (last (hyphenDefinitions st')) = IAlias ''Globals'' g)"
proof -
  from assemble_property_Some [OF assms(1)] obtain b d a where
    al: "aliasOf im fuel d = Some (Inr a)"
    and defs: "definitions st' = definitions st @
       [\<lparr>IPropertyAlias.name = (if v then toVendorPrefixCase im n else toCamelCase im n),
         generics = (if b then [lengthGeneric] else []), alias = a\<rparr>]"
     "hyphenDefinitions st' = hyphenDefinitions st @
       [\<lparr>IPropertyAlias.name = n, generics = (if b then [lengthGeneric] else []), alias = a\<rparr>]"
    and g: "globalsDeclaration im fuel = Some (Inr d) \<and> declarations st' = declarations st"
    unfolding assms(2) by (simp only: if_True simp_thms) blast
  from aliasOf_Some [OF al] globalsDeclaration_name g
  obtain gs where "a = IAlias ''Globals'' gs" by metis
  with defs g show ?thesis by simp
qed

lemma example_all:
  "assemble_property example_imported 3 False (standardShorthandProperties initial_tables)
     \<lparr>declarations = [], definitions = [], hyphenDefinitions = []\<rparr> ''all'' =
   Some (Inr example_all_assembly)"
  by code_simp

lemma example_all_filtered:
  "filterMissingDataTypes (dataTypes example_imported)
     (the (map_of (standardShorthandProperties initial_tables) ''all'')) = []"
  by (simp add: initial_tables_def filterMissingDataTypes_def)

text \<open>
  C8. \<open>onlyContainsString\<close> and \<open>onlyContainsNumber\<close> both hold of the empty list. The
  property \<open>all\<close> starts with the empty list and the loop over the properties passes it
  by; the empty list stays empty when filtered. A step of the assembly on a property whose
  filtered list is empty adds no declaration and makes the property an alias of
  \<open>Globals\<close>, in both definition lists. The step comes to an end when the registry has no
  cycle, and then returns when neither the registry, nor the global values, nor the list of
  the property refers to a name that the registry only inherits.
\<close>

theorem empty_list_is_Globals:
  "onlyContainsString [] \<and> onlyContainsNumber [] \<and>
   map_of (standardShorthandProperties initial_tables) ''all'' = Some [] \<and>
   process_property compatProperties parse typing tbl (''all'', p) = tbl \<and>
   filterMissingDataTypes dt [] = [] \<and>
   (assemble_property im fuel v props st n = Some (Inr st') \<and>
    filterMissingDataTypes (dataTypes im) (the (map_of props n)) = [] \<longrightarrow>
      declarations st' = declarations st \<and>
      (\<exists>g. alias (last (definitions st')) = IAlias ''Globals'' g \<and>
           alias (last (hyphenDefinitions st')) = IAlias ''Globals'' g)) \<and>
   (ranked rank (dataTypes im) \<longrightarrow>
      (\<exists>fuel r. assemble_property im fuel v props st n = Some r)) \<and>
   (ranked rank (dataTypes im) \<and> own_registry (dataTypes im) \<and>
    own_references (dataTypes im) (globals im) \<and>
    own_references (dataTypes im) (the (map_of props n)) \<longrightarrow>
      (\<exists>fuel st'. assemble_property im fuel v props st n = Some (Inr st')))"
proof (intro conjI impI)
  assume "ranked rank (dataTypes im)"
  then show "\<exists>fuel r. assemble_property im fuel v props st n = Some r"
    by (intro settles_returns settles_assemble_property)
next
  assume "ranked rank (dataTypes im) \<and> own_registry (dataTypes im) \<and>
    own_references (dataTypes im) (globals im) \<and>
    own_references (dataTypes im) (the (map_of props n))"
  then have "yields (\<lambda>st'. True) (\<lambda>fuel. assemble_property im fuel v props st n)"
    by (blast intro: yields_assemble_property)
  then show "\<exists>fuel st'. assemble_property im fuel v props st n = Some (Inr st')"
    by (rule yields_returns)
next
  show "onlyContainsString []" by (simp add: onlyContainsString_def)
  show "onlyContainsNumber []" by (simp add: onlyContainsNumber_def)
  show "map_of (standardShorthandProperties initial_tables) ''all'' = Some []"
    by (simp add: initial_tables_def)
  show "process_property compatProperties parse typing tbl (''all'', p) = tbl"
    by (rule process_property_all)
  show "filterMissingDataTypes dt [] = []" by (rule filterMissingDataTypes_Nil)
next
  assume a: "assemble_property im fuel v props st n = Some (Inr st') \<and>
    filterMissingDataTypes (dataTypes im) (the (map_of props n)) = []"
  then show "declarations st' = declarations st"
    using assemble_property_Globals by blast
  from a show "\<exists>g. alias (last (definitions st')) = IAlias ''Globals'' g \<and>
           alias (last (hyphenDefinitions st')) = IAlias ''Globals'' g"
    using assemble_property_Globals by blast
qed

lemma example_own_all:
  "own_references (dataTypes example_imported)
     (the (map_of (standardShorthandProperties initial_tables) ''all''))"
  by (simp add: own_references_def initial_tables_def)

theorem empty_list_is_Globals_witness:
  "assemble_property example_imported 3 False (standardShorthandProperties initial_tables)
     \<lparr>declarations = [], definitions = [], hyphenDefinitions = []\<rparr> ''all'' =
     Some (Inr example_all_assembly) \<and>
   filterMissingDataTypes (dataTypes example_imported)
     (the (map_of (standardShorthandProperties initial_tables) ''all'')) = [] \<and>
   declarations example_all_assembly = [] \<and>
   (\<exists>g. alias (last (definitions example_all_assembly)) = IAlias ''Globals'' g \<and>
        alias (last (hyphenDefinitions example_all_assembly)) = IAlias ''Globals'' g) \<and>
   ranked example_rank (dataTypes example_imported) \<and>
   own_registry (dataTypes example_imported) \<and>
   own_references (dataTypes example_imported) (globals example_imported) \<and>
   (\<exists>fuel st'. assemble_property example_imported fuel False
      (standardShorthandProperties initial_tables)
      \<lparr>declarations = [], definitions = [], hyphenDefinitions = []\<rparr> ''all'' = Some (Inr st'))"
proof -
  note t = empty_list_is_Globals [where im = example_imported and fuel = 3 and v = False
      and props = "standardShorthandProperties initial_tables"
      and st = "\<lparr>declarations = [], definitions = [], hyphenDefinitions = []\<rparr>"
      and n = "''all''" and st' = example_all_assembly and rank = example_rank]
  from t example_all example_all_filtered
  have 1: "declarations example_all_assembly =
      declarations \<lparr>declarations = [], definitions = [], hyphenDefinitions = []\<rparr> \<and>
   (\<exists>g. alias (last (definitions example_all_assembly)) = IAlias ''Globals'' g \<and>
        alias (last (hyphenDefinitions example_all_assembly)) = IAlias ''Globals'' g)"
    by blast
  from t example_imported_ranked example_imported_own example_own_globals example_own_all
  have 2: "\<exists>fuel st'. assemble_property example_imported fuel False
      (standardShorthandProperties initial_tables)
      \<lparr>declarations = [], definitions = [], hyphenDefinitions = []\<rparr> ''all'' = Some (Inr st')"
    by blast
  from 1 2 example_all example_all_filtered example_imported_ranked example_imported_own
    example_own_globals
  show ?thesis by simp
qed

section \<open>The lists of a property and of its aliases\<close>

lemma assigned_assign_name:
  "assigned s (assign_name s' ty tbl m) n = (if m = n \<and> s = s' then Some ty else assigned s tbl n)"
  by (cases "REGEX_VENDOR_PROPERTY m"; cases "REGEX_VENDOR_PROPERTY n"; cases s; cases s';
      auto simp: assigned_def assign_name_def update_conv')

lemma assigned_foldl_assign_name:
  "assigned s (foldl (assign_name s' ty) tbl names) n =
     (if n \<in> set names \<and> s = s' then Some ty else assigned s tbl n)"
  by (induction names arbitrary: tbl) (auto simp: assigned_assign_name)

lemma assigned_process_property:
  "assigned s (process_property compatProperties parse typing tbl (nm, q)) n =
     (if nm \<notin> set IGNORES \<and> n \<in> set (nm # compatProperties nm) \<and> s = computedIsArray q
      then Some (typing (parse (syntax' q))) else assigned s tbl n)"
  unfolding process_property_def Let_def
  by (simp only: prod.case assigned_foldl_assign_name split: if_split) simp

lemma assigned_foldl_process_property:
  assumes "\<forall>(nm, q)\<in>set later. nm \<in> set IGNORES \<or> n \<notin> set (nm # compatProperties nm)"
  shows "assigned s (foldl (process_property compatProperties parse typing) tbl later) n =
     assigned s tbl n"
  using assms
proof (induction later arbitrary: tbl)
  case Nil
  then show ?case by simp
next
  case (Cons e later)
  obtain nm q where e: "e = (nm, q)" by (cases e)
  from Cons.prems e have 1: "nm \<in> set IGNORES \<or> n \<notin> set (nm # compatProperties nm)"
    and 2: "\<forall>(nm, q)\<in>set later. nm \<in> set IGNORES \<or> n \<notin> set (nm # compatProperties nm)"
    by auto
  have "assigned s (foldl (process_property compatProperties parse typing) tbl (e # later)) n =
      assigned s (process_property compatProperties parse typing tbl (nm, q)) n"
    unfolding e foldl_Cons by (rule Cons.IH [OF 2])
  also have "\<dots> = assigned s tbl n"
    using 1 unfolding assigned_process_property by auto
  finally show ?case .
qed

text \<open>
  C5, as amended. When a property that is not ignored is processed, whatever was processed
  before, each of its names (the original and every alias) is assigned the one list resolved
  from its syntax; and after the loop each of these names that no later property assigns
  again still holds that list, so the alias and the original hold the same list. A name
  that a later property assigns again holds that property's list: the two orders of the
  same two properties leave different lists under the alias.
\<close>

theorem alias_shares_resolution:
  assumes "originalName \<notin> set IGNORES"
    and "n \<in> set (originalName # compatProperties originalName)"
    and "\<forall>(nm, q)\<in>set later. nm \<in> set IGNORES \<or>
           (n \<notin> set (nm # compatProperties nm) \<and> originalName \<notin> set (nm # compatProperties nm))"
  shows "assigned (computedIsArray p)
           (process_properties compatProperties parse typing (before @ (originalName, p) # later)) n =
           Some (typing (parse (syntax' p))) \<and>
         assigned (computedIsArray p)
           (process_properties compatProperties parse typing (before @ (originalName, p) # later)) n =
         assigned (computedIsArray p)
           (process_properties compatProperties parse typing (before @ (originalName, p) # later))
           originalName"
proof -
  let ?tbl = "foldl (process_property compatProperties parse typing) initial_tables before"
  have later: "assigned s (process_properties compatProperties parse typing (before @ (originalName, p) # later)) m =
      assigned s (process_property compatProperties parse typing ?tbl (originalName, p)) m"
    if "m = n \<or> m = originalName" for s m
    unfolding process_properties_def foldl_append foldl_Cons
    by (rule assigned_foldl_process_property) (use assms(3) that in auto)
  have "assigned (computedIsArray p)
           (process_properties compatProperties parse typing (before @ (originalName, p) # later)) n =
           Some (typing (parse (syntax' p)))"
    using assms(1,2) by (simp only: later assigned_process_property simp_thms if_True)
  moreover have "assigned (computedIsArray p)
           (process_properties compatProperties parse typing (before @ (originalName, p) # later)) originalName =
           Some (typing (parse (syntax' p)))"
    using assms(1) by (simp add: later assigned_process_property)
  ultimately show ?thesis by simp
qed

theorem alias_shares_resolution_witness:
  "''appearance'' \<notin> set IGNORES \<and>
   ''-moz-appearance'' \<in> set (''appearance'' # example_compatProperties ''appearance'') \<and>
   assigned False
     (process_properties example_compatProperties (\<lambda>s. s) (\<lambda>s. [IStringLiteral s])
        ([example_color] @ (''appearance'', \<lparr>syntax' = ''auto'', computedIsArray = False\<rparr>) # [example_color]))
     ''-moz-appearance'' = Some [IStringLiteral ''auto''] \<and>
   assigned False
     (process_properties example_compatProperties (\<lambda>s. s) (\<lambda>s. [IStringLiteral s])
        ([example_color] @ (''appearance'', \<lparr>syntax' = ''auto'', computedIsArray = False\<rparr>) # [example_color]))
     ''-moz-appearance'' =
   assigned False
     (process_properties example_compatProperties (\<lambda>s. s) (\<lambda>s. [IStringLiteral s])
        ([example_color] @ (''appearance'', \<lparr>syntax' = ''auto'', computedIsArray = False\<rparr>) # [example_color]))
     ''appearance''"
proof -
  have 1: "''appearance'' \<notin> set IGNORES" by (simp add: IGNORES_def)
  have 2: "''-moz-appearance'' \<in> set (''appearance'' # example_compatProperties ''appearance'')"
    by (simp add: example_compatProperties_def)
  have 3: "\<forall>(nm, q)\<in>set [example_color]. nm \<in> set IGNORES \<or>
           (''-moz-appearance'' \<notin> set (nm # example_compatProperties nm) \<and>
            ''appearance'' \<notin> set (nm # example_compatProperties nm))"
    by (simp add: example_color_def example_compatProperties_def)
  note t = alias_shares_resolution [OF 1 2 3, of "\<lparr>syntax' = ''auto'', computedIsArray = False\<rparr>"
      "\<lambda>s. s" "\<lambda>s. [IStringLiteral s]" "[example_color]"]
  note t' = t [unfolded property_data.select_convs]
  from 1 2 t' show ?thesis by blast
qed

text \<open>
  The claim C5 as it stands fails: \<open>appearance\<close> has the alias \<open>-moz-appearance\<close>, which is
  also a property of its own with another syntax. Processed in this order, the alias ends
  with the list of the second property and differs from the original; processed in the other
  order, it ends with the list of \<open>appearance\<close>.
\<close>

theorem alias_list_depends_on_order:
  "assigned False
     (process_properties example_compatProperties (\<lambda>s. s) (\<lambda>s. [IStringLiteral s])
        [example_appearance, example_moz_appearance]) ''-moz-appearance'' =
     Some [IStringLiteral ''button''] \<and>
   assigned False
     (process_properties example_compatProperties (\<lambda>s. s) (\<lambda>s. [IStringLiteral s])
        [example_appearance, example_moz_appearance]) ''appearance'' =
     Some [IStringLiteral ''auto''] \<and>
   assigned False
     (process_properties example_compatProperties (\<lambda>s. s) (\<lambda>s. [IStringLiteral s])
        [example_moz_appearance, example_appearance]) ''-moz-appearance'' =
     Some [IStringLiteral ''auto'']"
  by (simp add: process_properties_def process_property_def assigned_foldl_assign_name
      assigned_def assign_name_def initial_tables_def IGNORES_def Let_def
      example_appearance_def example_moz_appearance_def example_compatProperties_def)

section \<open>Fallback interfaces\<close>

lemma fallback_copy_1:
  "fallback_copy (standardLonghandPropertiesInterface d) (standardLongformPropertiesFallbackInterface d) \<and> extends (standardLongformPropertiesFallbackInterface d) = extends (standardLonghandPropertiesInterface d)"
  by (simp add: fallback_copy_def standardLonghandPropertiesInterface_def standardLongformPropertiesFallbackInterface_def INTERFACE_STANDARD_LONGHAND_PROPERTIES_def INTERFACE_STANDARD_LONGHAND_PROPERTIES_FALLBACK_def Let_def)

lemma fallback_copy_2:
  "fallback_copy (standardShorthandPropertiesInterface d) (standardShorthandPropertiesFallbackInterface d) \<and> extends (standardShorthandPropertiesFallbackInterface d) = extends (standardShorthandPropertiesInterface d)"
  by (simp add: fallback_copy_def standardShorthandPropertiesInterface_def standardShorthandPropertiesFallbackInterface_def INTERFACE_STANDARD_SHORTHAND_PROPERTIES_def INTERFACE_STANDARD_SHORTHAND_PROPERTIES_FALLBACK_def Let_def)

lemma fallback_copy_3:
  "fallback_copy (standardPropertiesInterface d) (standardPropertiesFallbackInterface d) \<and>
   extends (standardPropertiesFallbackInterface d) = [standardLongformPropertiesFallbackInterface d, standardShorthandPropertiesFallbackInterface d]"
  by (simp add: fallback_copy_def standardPropertiesInterface_def standardPropertiesFallbackInterface_def INTERFACE_STANDARD_PROPERTIES_def INTERFACE_STANDARD_PROPERTIES_FALLBACK_def Let_def)

lemma fallback_copy_4:
  "fallback_copy (vendorLonghandPropertiesInterface d) (vendorLonghandPropertiesFallbackInterface d) \<and> extends (vendorLonghandPropertiesFallbackInterface d) = extends (vendorLonghandPropertiesInterface d)"
  by (simp add: fallback_copy_def vendorLonghandPropertiesInterface_def vendorLonghandPropertiesFallbackInterface_def INTERFACE_VENDOR_LONGHAND_PROPERTIES_def INTERFACE_VENDOR_LONGHAND_PROPERTIES_FALLBACK_def Let_def)

lemma fallback_copy_5:
  "fallback_copy (vendorShorthandPropertiesInterface d) (vendorShorthandPropertiesFallbackInterface d) \<and> extends (vendorShorthandPropertiesFallbackInterface d) = extends (vendorShorthandPropertiesInterface d)"
  by (simp add: fallback_copy_def vendorShorthandPropertiesInterface_def vendorShorthandPropertiesFallbackInterface_def INTERFACE_VENDOR_SHORTHAND_PROPERTIES_def INTERFACE_VENDOR_SHORTHAND_PROPERTIES_FALLBACK_def Let_def)

lemma fallback_copy_6:
  "fallback_copy (vendorPropertiesInterface d) (vendorPropertiesFallbackInterface d) \<and>
   extends (vendorPropertiesFallbackInterface d) = [vendorLonghandPropertiesFallbackInterface d, vendorShorthandPropertiesFallbackInterface d]"
  by (simp add: fallback_copy_def vendorPropertiesInterface_def vendorPropertiesFallbackInterface_def INTERFACE_VENDOR_PROPERTIES_def INTERFACE_VENDOR_PROPERTIES_FALLBACK_def Let_def)

lemma fallback_copy_7:
  "fallback_copy (svgPropertiesInterface d) (svgPropertiesFallbackInterface d) \<and> extends (svgPropertiesFallbackInterface d) = extends (svgPropertiesInterface d)"
  by (simp add: fallback_copy_def svgPropertiesInterface_def svgPropertiesFallbackInterface_def INTERFACE_SVG_PROPERTIES_def INTERFACE_SVG_PROPERTIES_FALLBACK_def Let_def)

lemma fallback_copy_8:
  "fallback_copy (allPropertiesInterface d) (allPropertiesFallbackInterface d) \<and>
   extends (allPropertiesFallbackInterface d) = [standardPropertiesFallbackInterface d, vendorPropertiesFallbackInterface d, svgPropertiesFallbackInterface d]"
  by (simp add: fallback_copy_def allPropertiesInterface_def allPropertiesFallbackInterface_def INTERFACE_ALL_PROPERTIES_def INTERFACE_ALL_PROPERTIES_FALLBACK_def Let_def)

lemma fallback_copy_9:
  "fallback_copy (standardLonghandPropertiesHyphenInterface d) (standardLongformPropertiesHyphenFallbackInterface d) \<and> extends (standardLongformPropertiesHyphenFallbackInterface d) = extends (standardLonghandPropertiesHyphenInterface d)"
  by (simp add: fallback_copy_def standardLonghandPropertiesHyphenInterface_def standardLongformPropertiesHyphenFallbackInterface_def INTERFACE_STANDARD_LONGHAND_PROPERTIES_HYPHEN_def INTERFACE_STANDARD_LONGHAND_PROPERTIES_HYPHEN_FALLBACK_def Let_def)

lemma fallback_copy_10:
  "fallback_copy (standardShorthandPropertiesHyphenInterface d) (standardShorthandPropertiesHyphenFallbackInterface d) \<and> extends (standardShorthandPropertiesHyphenFallbackInterface d) = extends (standardShorthandPropertiesHyphenInterface d)"
  by (simp add: fallback_copy_def standardShorthandPropertiesHyphenInterface_def standardShorthandPropertiesHyphenFallbackInterface_def INTERFACE_STANDARD_SHORTHAND_PROPERTIES_HYPHEN_def INTERFACE_STANDARD_SHORTHAND_PROPERTIES_HYPHEN_FALLBACK_def Let_def)

lemma fallback_copy_11:
  "fallback_copy (standardPropertiesHyphenInterface d) (standardPropertiesHyphenFallbackInterface d) \<and>
   extends (standardPropertiesHyphenFallbackInterface d) = [standardLongformPropertiesHyphenFallbackInterface d, standardShorthandPropertiesHyphenFallbackInterface d]"
  by (simp add: fallback_copy_def standardPropertiesHyphenInterface_def standardPropertiesHyphenFallbackInterface_def INTERFACE_STANDARD_PROPERTIES_HYPHEN_def INTERFACE_STANDARD_PROPERTIES_HYPHEN_FALLBACK_def Let_def)

lemma fallback_copy_12:
  "fallback_copy (vendorLonghandPropertiesHyphenInterface d) (vendorLonghandPropertiesHyphenFallbackInterface d) \<and> extends (vendorLonghandPropertiesHyphenFallbackInterface d) = extends (vendorLonghandPropertiesHyphenInterface d)"
  by (simp add: fallback_copy_def vendorLonghandPropertiesHyphenInterface_def vendorLonghandPropertiesHyphenFallbackInterface_def INTERFACE_VENDOR_LONGHAND_PROPERTIES_HYPHEN_def INTERFACE_VENDOR_LONGHAND_PROPERTIES_HYPHEN_FALLBACK_def Let_def)

lemma fallback_copy_13:
  "fallback_copy (vendorShorthandPropertiesHyphenInterface d) (vendorShorthandPropertiesHyphenFallbackInterface d) \<and> extends (vendorShorthandPropertiesHyphenFallbackInterface d) = extends (vendorShorthandPropertiesHyphenInterface d)"
  by (simp add: fallback_copy_def vendorShorthandPropertiesHyphenInterface_def vendorShorthandPropertiesHyphenFallbackInterface_def INTERFACE_VENDOR_SHORTHAND_PROPERTIES_HYPHEN_def INTERFACE_VENDOR_SHORTHAND_PROPERTIES_HYPHEN_FALLBACK_def Let_def)

lemma fallback_copy_14:
  "fallback_copy (vendorPropertiesHyphenInterface d) (vendorPropertiesHyphenFallbackInterface d) \<and>
   extends (vendorPropertiesHyphenFallbackInterface d) = [vendorLonghandPropertiesHyphenFallbackInterface d, vendorShorthandPropertiesHyphenFallbackInterface d]"
  by (simp add: fallback_copy_def vendorPropertiesHyphenInterface_def vendorPropertiesHyphenFallbackInterface_def INTERFACE_VENDOR_PROPERTIES_HYPHEN_def INTERFACE_VENDOR_PROPERTIES_HYPHEN_FALLBACK_def Let_def)

lemma fallback_copy_15:
  "fallback_copy (svgPropertiesHyphenInterface d) (svgPropertiesHyphenFallbackInterface d) \<and> extends (svgPropertiesHyphenFallbackInterface d) = extends (svgPropertiesHyphenInterface d)"
  by (simp add: fallback_copy_def svgPropertiesHyphenInterface_def svgPropertiesHyphenFallbackInterface_def INTERFACE_SVG_PROPERTIES_HYPHEN_def INTERFACE_SVG_PROPERTIES_HYPHEN_FALLBACK_def Let_def)

lemma fallback_copy_16:
  "fallback_copy (allPropertiesHyphenInterface d) (allPropertiesHyphenFallbackInterface d) \<and>
   extends (allPropertiesHyphenFallbackInterface d) = [standardPropertiesHyphenFallbackInterface d, vendorPropertiesHyphenFallbackInterface d, svgPropertiesHyphenFallbackInterface d]"
  by (simp add: fallback_copy_def allPropertiesHyphenInterface_def allPropertiesHyphenFallbackInterface_def INTERFACE_ALL_PROPERTIES_HYPHEN_def INTERFACE_ALL_PROPERTIES_HYPHEN_FALLBACK_def Let_def)

text \<open>
  C10. Each of the sixteen fallback interfaces has the generics and the properties of its
  base interface, the fallback flag set where the base has it clear, and the base's name
  followed by \<open>Fallback\<close>. An interface that extends no other keeps the (empty) extends
  list of its base; an aggregate interface extends the fallback variants of what its base
  extends.
\<close>

theorem fallback_interfaces_copy:
  "(fallback_copy (standardLonghandPropertiesInterface d) (standardLongformPropertiesFallbackInterface d) \<and> extends (standardLongformPropertiesFallbackInterface d) = extends (standardLonghandPropertiesInterface d)) \<and>
   (fallback_copy (standardShorthandPropertiesInterface d) (standardShorthandPropertiesFallbackInterface d) \<and> extends (standardShorthandPropertiesFallbackInterface d) = extends (standardShorthandPropertiesInterface d)) \<and>
   (fallback_copy (standardPropertiesInterface d) (standardPropertiesFallbackInterface d) \<and> extends (standardPropertiesFallbackInterface d) = [standardLongformPropertiesFallbackInterface d, standardShorthandPropertiesFallbackInterface d]) \<and>
   (fallback_copy (vendorLonghandPropertiesInterface d) (vendorLonghandPropertiesFallbackInterface d) \<and> extends (vendorLonghandPropertiesFallbackInterface d) = extends (vendorLonghandPropertiesInterface d)) \<and>
   (fallback_copy (vendorShorthandPropertiesInterface d) (vendorShorthandPropertiesFallbackInterface d) \<and> extends (vendorShorthandPropertiesFallbackInterface d) = extends (vendorShorthandPropertiesInterface d)) \<and>
   (fallback_copy (vendorPropertiesInterface d) (vendorPropertiesFallbackInterface d) \<and> extends (vendorPropertiesFallbackInterface d) = [vendorLonghandPropertiesFallbackInterface d, vendorShorthandPropertiesFallbackInterface d]) \<and>
   (fallback_copy (svgPropertiesInterface d) (svgPropertiesFallbackInterface d) \<and> extends (svgPropertiesFallbackInterface d) = extends (svgPropertiesInterface d)) \<and>
   (fallback_copy (allPropertiesInterface d) (allPropertiesFallbackInterface d) \<and> extends (allPropertiesFallbackInterface d) = [standardPropertiesFallbackInterface d, vendorPropertiesFallbackInterface d, svgPropertiesFallbackInterface d]) \<and>
   (fallback_copy (standardLonghandPropertiesHyphenInterface d) (standardLongformPropertiesHyphenFallbackInterface d) \<and> extends (standardLongformPropertiesHyphenFallbackInterface d) = extends (standardLonghandPropertiesHyphenInterface d)) \<and>
   (fallback_copy (standardShorthandPropertiesHyphenInterface d) (standardShorthandPropertiesHyphenFallbackInterface d) \<and> extends (standardShorthandPropertiesHyphenFallbackInterface d) = extends (standardShorthandPropertiesHyphenInterface d)) \<and>
   (fallback_copy (standardPropertiesHyphenInterface d) (standardPropertiesHyphenFallbackInterface d) \<and> extends (standardPropertiesHyphenFallbackInterface d) = [standardLongformPropertiesHyphenFallbackInterface d, standardShorthandPropertiesHyphenFallbackInterface d]) \<and>
   (fallback_copy (vendorLonghandPropertiesHyphenInterface d) (vendorLonghandPropertiesHyphenFallbackInterface d) \<and> extends (vendorLonghandPropertiesHyphenFallbackInterface d) = extends (vendorLonghandPropertiesHyphenInterface d)) \<and>
   (fallback_copy (vendorShorthandPropertiesHyphenInterface d) (vendorShorthandPropertiesHyphenFallbackInterface d) \<and> extends (vendorShorthandPropertiesHyphenFallbackInterface d) = extends (vendorShorthandPropertiesHyphenInterface d)) \<and>
   (fallback_copy (vendorPropertiesHyphenInterface d) (vendorPropertiesHyphenFallbackInterface d) \<and> extends (vendorPropertiesHyphenFallbackInterface d) = [vendorLonghandPropertiesHyphenFallbackInterface d, vendorShorthandPropertiesHyphenFallbackInterface d]) \<and>
   (fallback_copy (svgPropertiesHyphenInterface d) (svgPropertiesHyphenFallbackInterface d) \<and> extends (svgPropertiesHyphenFallbackInterface d) = extends (svgPropertiesHyphenInterface d)) \<and>
   (fallback_copy (allPropertiesHyphenInterface d) (allPropertiesHyphenFallbackInterface d) \<and> extends (allPropertiesHyphenFallbackInterface d) = [standardPropertiesHyphenFallbackInterface d, vendorPropertiesHyphenFallbackInterface d, svgPropertiesHyphenFallbackInterface d])"
  by (intro conjI) (simp_all only: fallback_copy_1 fallback_copy_2 fallback_copy_3 fallback_copy_4 fallback_copy_5 fallback_copy_6 fallback_copy_7 fallback_copy_8 fallback_copy_9 fallback_copy_10 fallback_copy_11 fallback_copy_12 fallback_copy_13 fallback_copy_14 fallback_copy_15 fallback_copy_16)

end
